theory Spec2Isabelle
  imports Complex_Main "HOL-Library.Word"
begin

section \<open>ESP32 water monitor: the two firmware variants\<close>

text \<open>
  The repository holds two near-identical Arduino sketches: \<^verbatim>\<open>src/main.cpp\<close> (test
  version, no BLE) and \<^verbatim>\<open>backup/main_with_ble.cpp\<close> (BLE server). Both keep the
  readings in global variables, overwrite them in \<^verbatim>\<open>updateWaterQualityReadings\<close> and
  drive three LEDs.

  Conventions of the embedding:
  \<^item> C++ \<^verbatim>\<open>float\<close>/\<^verbatim>\<open>double\<close> values are modelled as \<^typ>\<open>real\<close>: every arithmetic
    operation is exact, rounding is abstracted away. Comparisons against the thresholds
    are exact in both worlds.
  \<^item> \<^verbatim>\<open>sqrt\<close>, \<^verbatim>\<open>sin\<close>, \<^verbatim>\<open>pow\<close> and \<^verbatim>\<open>abs\<close> (on a \<^verbatim>\<open>float\<close> argument) are
    the functions of the same name on \<^typ>\<open>real\<close>.
  \<^item> \<^verbatim>\<open>unsigned long\<close> (the millisecond clock) is \<^typ>\<open>32 word\<close>, as on the ESP32.
  \<^item> every call into the environment (\<^verbatim>\<open>mpu.begin()\<close>, \<^verbatim>\<open>mpu.getEvent\<close>,
    \<^verbatim>\<open>analogRead\<close>, \<^verbatim>\<open>millis()\<close>, \<^verbatim>\<open>random\<close>) is an explicit input, one field per
    call site, so that two \<^verbatim>\<open>millis()\<close> calls of one cycle may differ.
  \<^item> the global variables, the three LED pin levels and a log of the hardware calls
    made so far form the state; every function of the sketch is a state transformer.
  \<^item> the per-cycle \<^verbatim>\<open>Serial.print\<close> debugging output is not modelled; the
    \<^verbatim>\<open>Serial.println\<close> messages of \<^verbatim>\<open>setup\<close> are.
\<close>

subsection \<open>Constants\<close>

definition VREF :: real where
  "VREF = 3.3"

definition ADC_RES :: int where
  "ADC_RES = 4095"

definition sensorTemperature :: real where
  "sensorTemperature = 25.0"

definition TDSCLEAN_THRESHOLD :: real where
  "TDSCLEAN_THRESHOLD = 300.0"

definition TDSDIRTY_THRESHOLD :: real where
  "TDSDIRTY_THRESHOLD = 400.0"

definition TDSXTREME_THRESHOLD :: real where
  "TDSXTREME_THRESHOLD = 500.0"

definition VIB_THRESHOLD :: real where
  "VIB_THRESHOLD = 1.5"

subsection \<open>State\<close>

datatype pin = LED_GREEN | LED_YELLOW | LED_RED

datatype event =
    PinWrite pin bool
  | Delay nat
  | Println string
  | MpuBegin bool
  | MpuSetAccelerometerRange
  | MpuSetFilterBandwidth
  | MpuGetEvent
  | BleInit string
  | BleNotify string
  | BleStartAdvertising

text \<open>
  The global variables of both sketches, the level of the three LED pins, and the log of
  hardware calls.
\<close>

record device =
  pH :: real
  temperature :: real
  tds :: real
  turbidity :: real
  vibration :: real
  vibrationDetected :: bool
  waterStatus :: string
  lastReading :: "32 word"
  led_green :: bool
  led_yellow :: bool
  led_red :: bool
  trace :: "event list"

text \<open>The BLE sketch has two more globals.\<close>

record ble_device = device +
  deviceConnected :: bool
  oldDeviceConnected :: bool

text \<open>The initialisers of the globals; the pins are low and nothing has been logged.\<close>

definition power_on :: device where
  "power_on = \<lparr> pH = 7.0, temperature = 22.0, tds = 150.0, turbidity = 2.0,
     vibration = 0.0, vibrationDetected = False, waterStatus = ''unknown'',
     lastReading = 0, led_green = False, led_yellow = False, led_red = False,
     trace = [] \<rparr>"

definition power_on_ble :: ble_device where
  "power_on_ble = device.extend power_on
     \<lparr> deviceConnected = False, oldDeviceConnected = False \<rparr>"

text \<open>What one run of \<^verbatim>\<open>updateWaterQualityReadings\<close> reads from the environment.\<close>

record cycle_env =
  mpu_begin :: bool             \<comment> \<open>\<^verbatim>\<open>mpu.begin()\<close>, \<^verbatim>\<open>src/main.cpp\<close> line 102 only\<close>
  accel_x :: real               \<comment> \<open>\<^verbatim>\<open>accel.acceleration.x\<close>\<close>
  accel_y :: real
  accel_z :: real
  temp_temperature :: real      \<comment> \<open>\<^verbatim>\<open>temp.temperature\<close>\<close>
  random_vibration :: int       \<comment> \<open>\<^verbatim>\<open>random(-50, 50)\<close>, line 117\<close>
  random_temperature :: int     \<comment> \<open>\<^verbatim>\<open>random(-30, 30)\<close>, line 119\<close>
  analogRead_tds :: int         \<comment> \<open>\<^verbatim>\<open>analogRead(TDS_PIN)\<close>\<close>
  millis_led :: "32 word"       \<comment> \<open>\<^verbatim>\<open>millis()\<close> in the LED branch\<close>
  millis_pH :: "32 word"        \<comment> \<open>\<^verbatim>\<open>millis()\<close> in the pH line\<close>
  random_pH :: int              \<comment> \<open>\<^verbatim>\<open>random(-10, 10)\<close>\<close>
  millis_turbidity :: "32 word" \<comment> \<open>\<^verbatim>\<open>millis()\<close> in the turbidity line\<close>
  random_turbidity :: int       \<comment> \<open>\<^verbatim>\<open>random(-30, 30)\<close>\<close>

subsection \<open>Arduino primitives\<close>

definition emit :: "event \<Rightarrow> 'a device_scheme \<Rightarrow> 'a device_scheme" where
  "emit e s = s\<lparr> trace := trace s @ [e] \<rparr>"

definition digitalWrite :: "pin \<Rightarrow> bool \<Rightarrow> 'a device_scheme \<Rightarrow> 'a device_scheme" where
  "digitalWrite p v s =
     emit (PinWrite p v)
       (case p of
          LED_GREEN \<Rightarrow> s\<lparr> led_green := v \<rparr>
        | LED_YELLOW \<Rightarrow> s\<lparr> led_yellow := v \<rparr>
        | LED_RED \<Rightarrow> s\<lparr> led_red := v \<rparr>)"

definition delay :: "nat \<Rightarrow> 'a device_scheme \<Rightarrow> 'a device_scheme" where
  "delay ms s = emit (Delay ms) s"

definition println :: "string \<Rightarrow> 'a device_scheme \<Rightarrow> 'a device_scheme" where
  "println msg s = emit (Println msg) s"

text \<open>
  Modelled from the spec: Arduino's \<^verbatim>\<open>constrain(amt, low, high)\<close> macro, which is not
  part of the repository; the spec calls it \<open>clamp\<close>. The macro is
  \<^verbatim>\<open>((amt)<(low)?(low):((amt)>(high)?(high):(amt)))\<close>.
\<close>

definition constrain :: "real \<Rightarrow> real \<Rightarrow> real \<Rightarrow> real" where
  "constrain amt low high = (if amt < low then low else if amt > high then high else amt)"

text \<open>
  Modelled from the spec: the bounds of Arduino's \<^verbatim>\<open>random(min, max)\<close>, which is not
  part of the repository: a draw lies between \<open>min\<close> and \<open>max\<close>. Arduino never
  returns \<open>max\<close> itself; the closed range of the spec is used here, which admits it.
\<close>

definition random_range :: "int \<Rightarrow> int \<Rightarrow> int \<Rightarrow> bool" where
  "random_range lo hi r = (lo \<le> r \<and> r \<le> hi)"

subsection \<open>The stages of \<^verbatim>\<open>updateWaterQualityReadings\<close>\<close>

text \<open>
  Vibration detection, \<^verbatim>\<open>backup/main_with_ble.cpp\<close> lines 204-216: the sensor is read
  unconditionally.
\<close>

definition readMotion_ble :: "cycle_env \<Rightarrow> 'a device_scheme \<Rightarrow> 'a device_scheme" where
  "readMotion_ble env s =
     (let s1 = emit MpuGetEvent s;
          ax = accel_x env; ay = accel_y env; az = accel_z env;
          s2 = s1\<lparr> vibration := sqrt (ax * ax + ay * ay + az * az) - 9.8 \<rparr>;
          s3 = s2\<lparr> vibrationDetected := (\<bar>vibration s2\<bar> > VIB_THRESHOLD) \<rparr>
      in s3\<lparr> temperature := temp_temperature env \<rparr>)"

text \<open>
  Vibration detection, \<^verbatim>\<open>src/main.cpp\<close> lines 101-120: \<^verbatim>\<open>mpu.begin()\<close> is called
  again, and its result selects between the sensor and simulated values.
\<close>

definition readMotion :: "cycle_env \<Rightarrow> 'a device_scheme \<Rightarrow> 'a device_scheme" where
  "readMotion env s =
     (let s0 = emit (MpuBegin (mpu_begin env)) s in
      if mpu_begin env then readMotion_ble env s0
      else
        (let s1 = s0\<lparr> vibration := real_of_int (random_vibration env) / 100.0 \<rparr>;
             s2 = s1\<lparr> vibrationDetected := False \<rparr>
         in s2\<lparr> temperature := 22.0 + real_of_int (random_temperature env) / 10.0 \<rparr>))"

text \<open>TDS conversion, lines 123-131 (219-227 in the BLE sketch).\<close>

definition tdsFromAdc :: "int \<Rightarrow> real" where
  "tdsFromAdc adcValue =
     (let voltage = real_of_int adcValue * VREF / real_of_int ADC_RES;
          compensation = 1.0 + 0.02 * (sensorTemperature - 25.0);
          vComp = voltage / compensation;
          t = (133.42 * vComp ^ 3 - 255.86 * vComp ^ 2 + 857.39 * vComp) * 0.5
      in constrain t 0 2000)"

definition readTds :: "cycle_env \<Rightarrow> 'a device_scheme \<Rightarrow> 'a device_scheme" where
  "readTds env s = s\<lparr> tds := tdsFromAdc (analogRead_tds env) \<rparr>"

text \<open>Water quality assessment, lines 134-142 (230-238): an if-chain with no final else.\<close>

definition assessWaterQuality :: "'a device_scheme \<Rightarrow> 'a device_scheme" where
  "assessWaterQuality s =
     (if tds s \<le> TDSCLEAN_THRESHOLD \<and> \<not> vibrationDetected s then
        s\<lparr> waterStatus := ''clean'' \<rparr>
      else if tds s \<le> TDSDIRTY_THRESHOLD \<and> tds s > TDSCLEAN_THRESHOLD
              \<and> \<not> vibrationDetected s then
        s\<lparr> waterStatus := ''unsafe'' \<rparr>
      else if tds s \<ge> TDSXTREME_THRESHOLD then
        s\<lparr> waterStatus := ''extremely_unsafe'' \<rparr>
      else if vibrationDetected s then
        s\<lparr> waterStatus := ''vibration_detected'' \<rparr>
      else s)"

text \<open>
  LED status indicators, lines 146-160 (242-256): all three pins are written low, then
  at most one is written again. The yellow pin gets the parity of \<^verbatim>\<open>millis() / 500\<close>
  at the moment of the call.
\<close>

definition setStatusLeds :: "cycle_env \<Rightarrow> 'a device_scheme \<Rightarrow> 'a device_scheme" where
  "setStatusLeds env s =
     (let s1 = digitalWrite LED_GREEN False s;
          s2 = digitalWrite LED_YELLOW False s1;
          s3 = digitalWrite LED_RED False s2
      in if waterStatus s3 = ''clean'' then digitalWrite LED_GREEN True s3
         else if waterStatus s3 = ''unsafe'' then digitalWrite LED_YELLOW True s3
         else if waterStatus s3 = ''extremely_unsafe'' then digitalWrite LED_RED True s3
         else if waterStatus s3 = ''vibration_detected'' then
           digitalWrite LED_YELLOW ((millis_led env div 500) mod 2 \<noteq> 0) s3
         else s3)"

text \<open>Simulated pH and turbidity, lines 163-167 (260-264).\<close>

definition simulatePhTurbidity :: "cycle_env \<Rightarrow> 'a device_scheme \<Rightarrow> 'a device_scheme" where
  "simulatePhTurbidity env s =
     (let s1 = s\<lparr> pH := 7.0 + sin (real (unat (millis_pH env)) / 15000.0) * 0.8
                       + real_of_int (random_pH env) / 100.0 \<rparr>;
          s2 = s1\<lparr> turbidity := 2.0 + sin (real (unat (millis_turbidity env)) / 18000.0) * 1.5
                       + real_of_int (random_turbidity env) / 100.0 \<rparr>;
          s3 = s2\<lparr> pH := constrain (pH s2) 6.0 9.0 \<rparr>
      in s3\<lparr> turbidity := constrain (turbidity s3) 0.1 10.0 \<rparr>)"

text \<open>\<^verbatim>\<open>updateWaterQualityReadings\<close> of \<^verbatim>\<open>src/main.cpp\<close>.\<close>

definition updateWaterQualityReadings :: "cycle_env \<Rightarrow> 'a device_scheme \<Rightarrow> 'a device_scheme" where
  "updateWaterQualityReadings env s =
     simulatePhTurbidity env
       (setStatusLeds env (assessWaterQuality (readTds env (readMotion env s))))"

text \<open>\<^verbatim>\<open>updateWaterQualityReadings\<close> of \<^verbatim>\<open>backup/main_with_ble.cpp\<close>.\<close>

definition updateWaterQualityReadings_ble :: "cycle_env \<Rightarrow> 'a device_scheme \<Rightarrow> 'a device_scheme" where
  "updateWaterQualityReadings_ble env s =
     simulatePhTurbidity env
       (setStatusLeds env (assessWaterQuality (readTds env (readMotion_ble env s))))"

subsection \<open>Wire record (BLE sketch)\<close>

text \<open>
  Modelled from the spec: Arduino's \<^verbatim>\<open>String(unsigned long)\<close> constructor, which is
  not part of the repository: the decimal digits of the number.
\<close>

definition digitChar :: "nat \<Rightarrow> char" where
  "digitChar d = ''0123456789'' ! d"

function decimal :: "nat \<Rightarrow> string" where
  "decimal n = (if n < 10 then [digitChar n] else decimal (n div 10) @ [digitChar (n mod 10)])"
  by pat_completeness auto
termination
  by (relation "measure id") auto

declare decimal.simps [simp del]

text \<open>
  \<^verbatim>\<open>generateWaterQualityJSON\<close>, \<^verbatim>\<open>backup/main_with_ble.cpp\<close> lines 275-289. Arduino's
  \<^verbatim>\<open>String(float, decimalPlaces)\<close> constructor is not part of the repository and is the
  parameter \<open>fmt\<close>; the second parameter is the value of \<^verbatim>\<open>millis()\<close> at line 284.
\<close>

definition generateWaterQualityJSON ::
  "(real \<Rightarrow> nat \<Rightarrow> string) \<Rightarrow> 32 word \<Rightarrow> 'a device_scheme \<Rightarrow> string" where
  \<open>generateWaterQualityJSON fmt ms s =
     (let jsonData = ''{'';
          jsonData = jsonData @ (''"pH":'' @ fmt (pH s) 2 @ '','');
          jsonData = jsonData @ (''"temperature":'' @ fmt (temperature s) 1 @ '','');
          jsonData = jsonData @ (''"tds":'' @ fmt (tds s) 1 @ '','');
          jsonData = jsonData @ (''"turbidity":'' @ fmt (turbidity s) 2 @ '','');
          jsonData = jsonData @ (''"vibration":'' @ fmt (vibration s) 2 @ '','');
          jsonData = jsonData @ (''"vibrationDetected":''
                       @ (if vibrationDetected s then ''true'' else ''false'') @ '','');
          jsonData = jsonData @ (''"waterStatus":"'' @ waterStatus s @ ''",'');
          jsonData = jsonData @ (''"timestamp":"'' @ decimal (unat ms) @ ''",'');
          jsonData = jsonData @ ''"deviceId":"ESP32-WaterSensor",'';
          jsonData = jsonData @ ''"status":"active"'';
          jsonData = jsonData @ ''}''
      in jsonData)\<close>

subsection \<open>\<^verbatim>\<open>setup\<close> and \<^verbatim>\<open>loop\<close>\<close>

text \<open>The error signal of both sketches: \<^verbatim>\<open>for(int i = 0; i < 5; i++)\<close>.\<close>

fun flashRed :: "nat \<Rightarrow> 'a device_scheme \<Rightarrow> 'a device_scheme" where
  "flashRed 0 s = s"
| "flashRed (Suc n) s =
     flashRed n (delay 200 (digitalWrite LED_RED False (delay 200 (digitalWrite LED_RED True s))))"

text \<open>
  Parts common to both \<^verbatim>\<open>setup\<close> functions: the three pins written low, and the
  green LED lit for a second at the end. (\<^verbatim>\<open>Serial.begin\<close>, \<^verbatim>\<open>pinMode\<close>,
  \<^verbatim>\<open>Wire.begin\<close> and the creation of the BLE server objects leave no trace in the
  model.)
\<close>

definition initPins :: "'a device_scheme \<Rightarrow> 'a device_scheme" where
  "initPins s =
     digitalWrite LED_RED False (digitalWrite LED_YELLOW False (digitalWrite LED_GREEN False s))"

definition greenReady :: "'a device_scheme \<Rightarrow> 'a device_scheme" where
  "greenReady s = digitalWrite LED_GREEN False (delay 1000 (digitalWrite LED_GREEN True s))"

text \<open>
  \<^verbatim>\<open>setup\<close> of \<^verbatim>\<open>src/main.cpp\<close>, lines 47-86. The argument \<open>found\<close> is the result of
  \<^verbatim>\<open>mpu.begin()\<close> at line 64.
\<close>

definition setup_main :: "bool \<Rightarrow> 'a device_scheme \<Rightarrow> 'a device_scheme" where
  "setup_main found s =
     (let s1 = delay 1000 s;
          s2 = println ''Starting ESP32 Water Quality Sensor (Test Version)...'' s1;
          s3 = initPins s2;
          s4 = emit (MpuBegin found) s3;
          s5 = (if \<not> found then
                  println ''Continuing without MPU6050...''
                    (flashRed 5 (println ''Failed to find MPU6050 chip!'' s4))
                else
                  println ''MPU6050 initialized successfully.''
                    (emit MpuSetFilterBandwidth (emit MpuSetAccelerometerRange s4)));
          s6 = println ''System ready. Monitoring water quality...'' s5
      in greenReady s6)"

text \<open>
  A function of the sketch either returns (\<open>Running\<close>: the program goes on) or is still
  inside a loop without exit when the observation ends (\<open>Halted\<close>).
\<close>

datatype 'a progress = Running 'a | Halted 'a

text \<open>
  \<^verbatim>\<open>while (1) { Serial.println(...); delay(1000); }\<close>, lines 119-122 of the BLE sketch,
  observed for \<open>n\<close> iterations. The loop has no exit.
\<close>

fun stall :: "nat \<Rightarrow> 'a device_scheme \<Rightarrow> 'a device_scheme" where
  "stall 0 s = s"
| "stall (Suc n) s = stall n (delay 1000 (println ''MPU6050 not found - check wiring!'' s))"

text \<open>
  \<^verbatim>\<open>setup\<close> of \<^verbatim>\<open>backup/main_with_ble.cpp\<close>, lines 92-169. \<open>fuel\<close> is the number of
  iterations of the \<^verbatim>\<open>while (1)\<close> loop that are observed.
\<close>

definition setup_ble :: "nat \<Rightarrow> bool \<Rightarrow> 'a device_scheme \<Rightarrow> 'a device_scheme progress" where
  "setup_ble fuel found s =
     (let s1 = delay 1000 s;
          s2 = println ''Starting ESP32 Water Quality Sensor with Real Sensors...'' s1;
          s3 = println ''PlatformIO Version'' s2;
          s4 = initPins s3;
          s5 = emit (MpuBegin found) s4
      in if \<not> found then
           Halted (stall fuel (flashRed 5 (println ''Failed to find MPU6050 chip!'' s5)))
         else
           (let s6 = emit MpuSetFilterBandwidth (emit MpuSetAccelerometerRange s5);
                s7 = println ''MPU6050 initialized successfully.'' s6;
                s8 = emit BleStartAdvertising (emit (BleInit ''ESP32-WaterSensor'') s7);
                s9 = println ''Water Quality Sensor is now advertising...'' s8;
                s10 = println ''Device name: ESP32-WaterSensor'' s9;
                s11 = println ''Service UUID: 12345678-1234-1234-1234-123456789abc'' s10;
                s12 = println ''System ready. Monitoring water quality...'' s11
            in Running (greenReady s12)))"

fun state_of :: "'a progress \<Rightarrow> 'a" where
  "state_of (Running s) = s"
| "state_of (Halted s) = s"

text \<open>What one run of \<^verbatim>\<open>loop\<close> reads from the environment.\<close>

datatype ble_callback = OnConnect | OnDisconnect

record loop_env =
  millis_check :: "32 word"     \<comment> \<open>\<^verbatim>\<open>millis()\<close> in the condition\<close>
  cycle :: cycle_env            \<comment> \<open>the reads of the sampling cycle, if it runs\<close>
  millis_after :: "32 word"     \<comment> \<open>\<^verbatim>\<open>millis()\<close> stored in \<^verbatim>\<open>lastReading\<close>\<close>
  millis_json :: "32 word"      \<comment> \<open>\<^verbatim>\<open>millis()\<close> in \<^verbatim>\<open>generateWaterQualityJSON\<close>\<close>
  callback :: "ble_callback option" \<comment> \<open>a BLE server callback that ran before this iteration\<close>

text \<open>\<^verbatim>\<open>loop\<close> of \<^verbatim>\<open>src/main.cpp\<close>, lines 88-96.\<close>

definition loop_main :: "loop_env \<Rightarrow> 'a device_scheme \<Rightarrow> 'a device_scheme" where
  "loop_main le s =
     (let s1 = (if millis_check le - lastReading s > 3000 then
                  (updateWaterQualityReadings (cycle le) s)\<lparr> lastReading := millis_after le \<rparr>
                else s)
      in delay 1000 s1)"

text \<open>The server callbacks, lines 76-86 of the BLE sketch.\<close>

definition onConnect :: "'a ble_device_scheme \<Rightarrow> 'a ble_device_scheme" where
  "onConnect s = println ''Device connected!'' (s\<lparr> deviceConnected := True \<rparr>)"

definition onDisconnect :: "'a ble_device_scheme \<Rightarrow> 'a ble_device_scheme" where
  "onDisconnect s = println ''Device disconnected!'' (s\<lparr> deviceConnected := False \<rparr>)"

text \<open>\<^verbatim>\<open>loop\<close> of \<^verbatim>\<open>backup/main_with_ble.cpp\<close>, lines 171-199.\<close>

definition loop_ble ::
  "(real \<Rightarrow> nat \<Rightarrow> string) \<Rightarrow> loop_env \<Rightarrow> 'a ble_device_scheme \<Rightarrow> 'a ble_device_scheme" where
  "loop_ble fmt le s =
     (let s1 = (if millis_check le - lastReading s > 3000 then
                  (updateWaterQualityReadings_ble (cycle le) s)\<lparr> lastReading := millis_after le \<rparr>
                else s);
          s2 = (if deviceConnected s1 then
                  (let waterData = generateWaterQualityJSON fmt (millis_json le) s1
                   in println (''Sent: '' @ waterData) (emit (BleNotify waterData) s1))
                else s1);
          s3 = (if \<not> deviceConnected s2 \<and> oldDeviceConnected s2 then
                  (let t1 = delay 500 s2;
                       t2 = emit BleStartAdvertising t1;
                       t3 = println ''Restarting advertising...'' t2
                   in t3\<lparr> oldDeviceConnected := deviceConnected t3 \<rparr>)
                else s2);
          s4 = (if deviceConnected s3 \<and> \<not> oldDeviceConnected s3 then
                  s3\<lparr> oldDeviceConnected := deviceConnected s3 \<rparr>
                else s3)
      in delay 1000 s4)"

text \<open>
  Modelled from the spec: the Arduino core's \<^verbatim>\<open>main\<close>, which is not part of the
  repository: it calls \<^verbatim>\<open>setup()\<close> once and then \<^verbatim>\<open>loop()\<close> without end; here for
  the iterations listed in \<open>les\<close>. In the BLE sketch a server callback may run between two
  iterations.
\<close>

definition firmware_main :: "bool \<Rightarrow> loop_env list \<Rightarrow> 'a device_scheme \<Rightarrow> 'a device_scheme" where
  "firmware_main found les s = foldl (\<lambda>s le. loop_main le s) (setup_main found s) les"

definition runCallback :: "ble_callback option \<Rightarrow> 'a ble_device_scheme \<Rightarrow> 'a ble_device_scheme" where
  "runCallback cb s =
     (case cb of None \<Rightarrow> s | Some OnConnect \<Rightarrow> onConnect s | Some OnDisconnect \<Rightarrow> onDisconnect s)"

definition firmware_ble ::
  "(real \<Rightarrow> nat \<Rightarrow> string) \<Rightarrow> nat \<Rightarrow> bool \<Rightarrow> loop_env list
     \<Rightarrow> 'a ble_device_scheme \<Rightarrow> 'a ble_device_scheme progress" where
  "firmware_ble fmt fuel found les s =
     (case setup_ble fuel found s of
        Halted h \<Rightarrow> Halted h
      | Running r \<Rightarrow> Running (foldl (\<lambda>s le. loop_ble fmt le (runCallback (callback le) s)) r les))"

subsection \<open>Observations on a state\<close>

definition leds :: "'a device_scheme \<Rightarrow> bool \<times> bool \<times> bool" where
  "leds s = (led_green s, led_yellow s, led_red s)"

definition lit :: "bool \<times> bool \<times> bool \<Rightarrow> nat" where
  "lit p = (case p of (g, y, r) \<Rightarrow> of_bool g + of_bool y + of_bool r)"

text \<open>The global variables of the sketch, without pins and log.\<close>

definition globals ::
  "'a device_scheme \<Rightarrow> real \<times> real \<times> real \<times> real \<times> real \<times> bool \<times> string \<times> 32 word" where
  "globals s = (pH s, temperature s, tds s, turbidity s, vibration s, vibrationDetected s,
     waterStatus s, lastReading s)"

text \<open>The events logged between two states of one run.\<close>

definition events_since :: "'a device_scheme \<Rightarrow> 'b device_scheme \<Rightarrow> event list" where
  "events_since s s' = drop (length (trace s)) (trace s')"

text \<open>The pin levels after every event of a log, from given levels.\<close>

fun pin_step :: "event \<Rightarrow> bool \<times> bool \<times> bool \<Rightarrow> bool \<times> bool \<times> bool" where
  "pin_step (PinWrite LED_GREEN v) (g, y, r) = (v, y, r)"
| "pin_step (PinWrite LED_YELLOW v) (g, y, r) = (g, v, r)"
| "pin_step (PinWrite LED_RED v) (g, y, r) = (g, y, v)"
| "pin_step e p = p"

fun pin_history :: "event list \<Rightarrow> bool \<times> bool \<times> bool \<Rightarrow> (bool \<times> bool \<times> bool) list" where
  "pin_history [] p = [p]"
| "pin_history (e # es) p = p # pin_history es (pin_step e p)"

subsection \<open>The specification's formulations\<close>

text \<open>The spec's \<open>clamp\<close> and its unit converter (section 4.1), with its three parameters.\<close>

definition clamp :: "real \<Rightarrow> real \<Rightarrow> real \<Rightarrow> real" where
  "clamp x lo hi = max lo (min hi x)"

definition convert_spec :: "int \<Rightarrow> real \<Rightarrow> real \<Rightarrow> int \<Rightarrow> real" where
  "convert_spec adcMax vref sensorT adcValue =
     (let voltage = real_of_int adcValue * vref / real_of_int adcMax;
          compensation = 1.0 + 0.02 * (sensorT - 25.0);
          vComp = voltage / compensation
      in clamp ((133.42 * vComp ^ 3 - 255.86 * vComp ^ 2 + 857.39 * vComp) * 0.5) 0 2000)"

text \<open>
  The classifier's table (section 4.4): for a TDS value \<open>t\<close>, a vibration flag \<open>v\<close>, the
  status \<open>prev\<close> before the cycle and the status \<open>new\<close> after it.
\<close>

definition status_table :: "real \<Rightarrow> bool \<Rightarrow> string \<Rightarrow> string \<Rightarrow> bool" where
  "status_table t v prev new =
     ((t \<le> 300 \<and> \<not> v \<longrightarrow> new = ''clean'') \<and>
      (300 < t \<and> t \<le> 400 \<and> \<not> v \<longrightarrow> new = ''unsafe'') \<and>
      (t \<ge> 500 \<longrightarrow> new = ''extremely_unsafe'') \<and>
      (v \<and> t < 500 \<longrightarrow> new = ''vibration_detected'') \<and>
      (400 < t \<and> t < 500 \<and> \<not> v \<longrightarrow> new = prev) \<and>
      (new = ''unknown'' \<longrightarrow> prev = ''unknown''))"

text \<open>
  The wire record (sections 4.5 and 6) as an ordered list of keys and values, and its
  rendering as a JSON object.
\<close>

datatype jvalue = JBare string | JBool bool | JString string

definition render_value :: "jvalue \<Rightarrow> string" where
  \<open>render_value v =
     (case v of
        JBare x \<Rightarrow> x
      | JBool b \<Rightarrow> (if b then ''true'' else ''false'')
      | JString x \<Rightarrow> ''"'' @ x @ ''"'')\<close>

definition render_member :: "string \<times> jvalue \<Rightarrow> string" where
  \<open>render_member m = ''"'' @ fst m @ ''":'' @ render_value (snd m)\<close>

fun join_members :: "string list \<Rightarrow> string" where
  "join_members [] = []"
| "join_members [m] = m"
| "join_members (m # ms) = m @ '','' @ join_members ms"

definition render_object :: "(string \<times> jvalue) list \<Rightarrow> string" where
  "render_object ms = ''{'' @ join_members (map render_member ms) @ ''}''"

definition wire_record ::
  "(real \<Rightarrow> nat \<Rightarrow> string) \<Rightarrow> 32 word \<Rightarrow> 'a device_scheme \<Rightarrow> (string \<times> jvalue) list" where
  "wire_record fmt ms s =
     [(''pH'', JBare (fmt (pH s) 2)),
      (''temperature'', JBare (fmt (temperature s) 1)),
      (''tds'', JBare (fmt (tds s) 1)),
      (''turbidity'', JBare (fmt (turbidity s) 2)),
      (''vibration'', JBare (fmt (vibration s) 2)),
      (''vibrationDetected'', JBool (vibrationDetected s)),
      (''waterStatus'', JString (waterStatus s)),
      (''timestamp'', JString (decimal (unat ms))),
      (''deviceId'', JString ''ESP32-WaterSensor''),
      (''status'', JString ''active'')]"

text \<open>
  The blink of section 4.5 (1 Hz, 500 ms on and 500 ms off, driven by the clock): the
  level such an LED has at clock value \<open>t\<close>.
\<close>

definition blink_level :: "32 word \<Rightarrow> bool" where
  "blink_level t = ((t div 500) mod 2 \<noteq> 0)"

text \<open>The error signal of section 7: five flashes of the red LED, 200 ms on, 200 ms off.\<close>

definition error_signal :: "event list" where
  "error_signal =
     concat (replicate 5 [PinWrite LED_RED True, Delay 200, PinWrite LED_RED False, Delay 200])"

subsection \<open>Sample inputs\<close>

text \<open>A resting sensor (gravity only), an ADC reading of 0, all clocks at 4000 ms.\<close>

definition still_env :: cycle_env where
  "still_env = \<lparr> mpu_begin = True, accel_x = 0, accel_y = 0, accel_z = 9.8,
     temp_temperature = 25, random_vibration = 0, random_temperature = 0,
     analogRead_tds = 0, millis_led = 4000, millis_pH = 0, random_pH = 0,
     millis_turbidity = 0, random_turbidity = 0 \<rparr>"

text \<open>The same with a vertical acceleration of 12.0.\<close>

definition shaken_env :: cycle_env where
  "shaken_env = still_env\<lparr> accel_z := 12 \<rparr>"

definition tick :: "32 word \<Rightarrow> cycle_env \<Rightarrow> loop_env" where
  "tick t env = \<lparr> millis_check = t, cycle = env, millis_after = t, millis_json = t,
     callback = None \<rparr>"

text \<open>
  A formatter for the samples: fixed point with \<open>d\<close> decimals, the last one rounded.
\<close>

definition fmt_fixed :: "real \<Rightarrow> nat \<Rightarrow> string" where
  "fmt_fixed x d =
     (let n = nat \<lfloor>\<bar>x\<bar> * 10 ^ d + 1 / 2\<rfloor>;
          frac = decimal (n mod 10 ^ d)
      in (if x < 0 then ''-'' else [])
         @ decimal (n div 10 ^ d)
         @ (if d = 0 then [] else ''.'' @ replicate (d - length frac) CHR ''0'' @ frac))"

section \<open>Basic facts\<close>

lemmas constants =
  VREF_def ADC_RES_def sensorTemperature_def TDSCLEAN_THRESHOLD_def
  TDSDIRTY_THRESHOLD_def TDSXTREME_THRESHOLD_def VIB_THRESHOLD_def

lemmas primitives = emit_def digitalWrite_def delay_def println_def

subsection \<open>What each stage leaves untouched\<close>

lemma readMotion_ble_frame [simp]:
  "tds (readMotion_ble env s) = tds s"
  "pH (readMotion_ble env s) = pH s"
  "turbidity (readMotion_ble env s) = turbidity s"
  "waterStatus (readMotion_ble env s) = waterStatus s"
  "lastReading (readMotion_ble env s) = lastReading s"
  "led_green (readMotion_ble env s) = led_green s"
  "led_yellow (readMotion_ble env s) = led_yellow s"
  "led_red (readMotion_ble env s) = led_red s"
  by (simp_all add: readMotion_ble_def emit_def Let_def)

lemma readMotion_frame [simp]:
  "tds (readMotion env s) = tds s"
  "pH (readMotion env s) = pH s"
  "turbidity (readMotion env s) = turbidity s"
  "waterStatus (readMotion env s) = waterStatus s"
  "lastReading (readMotion env s) = lastReading s"
  "led_green (readMotion env s) = led_green s"
  "led_yellow (readMotion env s) = led_yellow s"
  "led_red (readMotion env s) = led_red s"
  by (simp_all add: readMotion_def emit_def Let_def)

lemma readTds_frame [simp]:
  "tds (readTds env s) = tdsFromAdc (analogRead_tds env)"
  "pH (readTds env s) = pH s"
  "turbidity (readTds env s) = turbidity s"
  "temperature (readTds env s) = temperature s"
  "vibration (readTds env s) = vibration s"
  "vibrationDetected (readTds env s) = vibrationDetected s"
  "waterStatus (readTds env s) = waterStatus s"
  "lastReading (readTds env s) = lastReading s"
  "led_green (readTds env s) = led_green s"
  "led_yellow (readTds env s) = led_yellow s"
  "led_red (readTds env s) = led_red s"
  "trace (readTds env s) = trace s"
  by (simp_all add: readTds_def)

lemma assessWaterQuality_frame [simp]:
  "tds (assessWaterQuality s) = tds s"
  "pH (assessWaterQuality s) = pH s"
  "turbidity (assessWaterQuality s) = turbidity s"
  "temperature (assessWaterQuality s) = temperature s"
  "vibration (assessWaterQuality s) = vibration s"
  "vibrationDetected (assessWaterQuality s) = vibrationDetected s"
  "lastReading (assessWaterQuality s) = lastReading s"
  "led_green (assessWaterQuality s) = led_green s"
  "led_yellow (assessWaterQuality s) = led_yellow s"
  "led_red (assessWaterQuality s) = led_red s"
  "trace (assessWaterQuality s) = trace s"
  by (simp_all add: assessWaterQuality_def)

lemma setStatusLeds_frame [simp]:
  "tds (setStatusLeds env s) = tds s"
  "pH (setStatusLeds env s) = pH s"
  "turbidity (setStatusLeds env s) = turbidity s"
  "temperature (setStatusLeds env s) = temperature s"
  "vibration (setStatusLeds env s) = vibration s"
  "vibrationDetected (setStatusLeds env s) = vibrationDetected s"
  "waterStatus (setStatusLeds env s) = waterStatus s"
  "lastReading (setStatusLeds env s) = lastReading s"
  by (simp_all add: setStatusLeds_def primitives Let_def)

lemma simulatePhTurbidity_frame [simp]:
  "tds (simulatePhTurbidity env s) = tds s"
  "temperature (simulatePhTurbidity env s) = temperature s"
  "vibration (simulatePhTurbidity env s) = vibration s"
  "vibrationDetected (simulatePhTurbidity env s) = vibrationDetected s"
  "waterStatus (simulatePhTurbidity env s) = waterStatus s"
  "lastReading (simulatePhTurbidity env s) = lastReading s"
  "led_green (simulatePhTurbidity env s) = led_green s"
  "led_yellow (simulatePhTurbidity env s) = led_yellow s"
  "led_red (simulatePhTurbidity env s) = led_red s"
  "trace (simulatePhTurbidity env s) = trace s"
  by (simp_all add: simulatePhTurbidity_def Let_def)

subsection \<open>What each stage computes\<close>

lemma readMotion_ble_result:
  "vibration (readMotion_ble env s)
     = sqrt (accel_x env * accel_x env + accel_y env * accel_y env + accel_z env * accel_z env) - 9.8"
  "vibrationDetected (readMotion_ble env s) = (\<bar>vibration (readMotion_ble env s)\<bar> > 1.5)"
  "temperature (readMotion_ble env s) = temp_temperature env"
  "trace (readMotion_ble env s) = trace s @ [MpuGetEvent]"
  by (simp_all add: readMotion_ble_def emit_def Let_def VIB_THRESHOLD_def)

lemma readMotion_result:
  "vibration (readMotion env s) =
     (if mpu_begin env then vibration (readMotion_ble env s)
      else real_of_int (random_vibration env) / 100)"
  "vibrationDetected (readMotion env s) =
     (if mpu_begin env then vibrationDetected (readMotion_ble env s) else False)"
  "temperature (readMotion env s) =
     (if mpu_begin env then temp_temperature env
      else 22 + real_of_int (random_temperature env) / 10)"
  "trace (readMotion env s) =
     trace s @ MpuBegin (mpu_begin env) # (if mpu_begin env then [MpuGetEvent] else [])"
  by (simp_all add: readMotion_def readMotion_ble_def emit_def Let_def VIB_THRESHOLD_def)

lemma assessWaterQuality_status:
  "waterStatus (assessWaterQuality s) =
     (if tds s \<le> 300 \<and> \<not> vibrationDetected s then ''clean''
      else if tds s \<le> 400 \<and> \<not> vibrationDetected s then ''unsafe''
      else if 500 \<le> tds s then ''extremely_unsafe''
      else if vibrationDetected s then ''vibration_detected''
      else waterStatus s)"
  by (simp add: assessWaterQuality_def constants)

lemma simulatePhTurbidity_result:
  "pH (simulatePhTurbidity env s) =
     constrain (7 + sin (real (unat (millis_pH env)) / 15000) * 0.8
                  + real_of_int (random_pH env) / 100) 6 9"
  "turbidity (simulatePhTurbidity env s) =
     constrain (2 + sin (real (unat (millis_turbidity env)) / 18000) * 1.5
                  + real_of_int (random_turbidity env) / 100) 0.1 10"
  by (simp_all add: simulatePhTurbidity_def Let_def)

subsection \<open>Clamping and the converter\<close>

lemma constrain_clamp: "lo \<le> hi \<Longrightarrow> constrain x lo hi = clamp x lo hi"
  by (simp add: constrain_def clamp_def max_def min_def)

lemma constrain_bounds: "lo \<le> hi \<Longrightarrow> lo \<le> constrain x lo hi \<and> constrain x lo hi \<le> hi"
  by (simp add: constrain_def)

lemma tdsFromAdc_spec: "tdsFromAdc a = convert_spec ADC_RES VREF sensorTemperature a"
  by (simp add: tdsFromAdc_def convert_spec_def constrain_clamp Let_def)

lemma tdsFromAdc_bounds: "0 \<le> tdsFromAdc a \<and> tdsFromAdc a \<le> 2000"
  unfolding tdsFromAdc_def Let_def by (rule constrain_bounds) simp

lemma tdsFromAdc_zero: "tdsFromAdc 0 = 0"
  by (simp add: tdsFromAdc_def constrain_def constants)

lemma tds_update [simp]:
  "tds (updateWaterQualityReadings env s) = tdsFromAdc (analogRead_tds env)"
  by (simp add: updateWaterQualityReadings_def)

lemma tds_update_ble [simp]:
  "tds (updateWaterQualityReadings_ble env s) = tdsFromAdc (analogRead_tds env)"
  by (simp add: updateWaterQualityReadings_ble_def)

subsection \<open>The cycle as a whole\<close>

lemma update_status:
  "waterStatus (updateWaterQualityReadings env s)
     = waterStatus (assessWaterQuality (readTds env (readMotion env s)))"
  "waterStatus (updateWaterQualityReadings_ble env s)
     = waterStatus (assessWaterQuality (readTds env (readMotion_ble env s)))"
  by (simp_all add: updateWaterQualityReadings_def updateWaterQualityReadings_ble_def)

lemma update_vibrationDetected:
  "vibrationDetected (updateWaterQualityReadings env s)
     = vibrationDetected (readTds env (readMotion env s))"
  "vibrationDetected (updateWaterQualityReadings_ble env s)
     = vibrationDetected (readTds env (readMotion_ble env s))"
  by (simp_all add: updateWaterQualityReadings_def updateWaterQualityReadings_ble_def)

lemma assess_table:
  "status_table (tds s) (vibrationDetected s) (waterStatus s) (waterStatus (assessWaterQuality s))"
  by (simp add: status_table_def assessWaterQuality_status)

lemma update_table:
  "status_table (tds (updateWaterQualityReadings env s))
     (vibrationDetected (updateWaterQualityReadings env s))
     (waterStatus s) (waterStatus (updateWaterQualityReadings env s))"
  using assess_table [of "readTds env (readMotion env s)"]
  by (simp add: update_status update_vibrationDetected)

lemma update_ble_table:
  "status_table (tds (updateWaterQualityReadings_ble env s))
     (vibrationDetected (updateWaterQualityReadings_ble env s))
     (waterStatus s) (waterStatus (updateWaterQualityReadings_ble env s))"
  using assess_table [of "readTds env (readMotion_ble env s)"]
  by (simp add: update_status update_vibrationDetected)

lemma update_keeps_known:
  "waterStatus s \<noteq> ''unknown'' \<Longrightarrow> waterStatus (updateWaterQualityReadings env s) \<noteq> ''unknown''"
  "waterStatus s \<noteq> ''unknown'' \<Longrightarrow> waterStatus (updateWaterQualityReadings_ble env s) \<noteq> ''unknown''"
  using update_table [of env s] update_ble_table [of env s]
  by (auto simp add: status_table_def)

lemma primitive_frame [simp]:
  "waterStatus (emit e s) = waterStatus s"
  "waterStatus (digitalWrite p v s) = waterStatus s"
  "waterStatus (delay n s) = waterStatus s"
  "waterStatus (println m s) = waterStatus s"
  "pH (emit e s) = pH s"
  "pH (digitalWrite p v s) = pH s"
  "pH (delay n s) = pH s"
  "pH (println m s) = pH s"
  "turbidity (emit e s) = turbidity s"
  "turbidity (digitalWrite p v s) = turbidity s"
  "turbidity (delay n s) = turbidity s"
  "turbidity (println m s) = turbidity s"
  by (simp_all add: primitives split: pin.split)

lemma loop_main_status:
  "waterStatus (loop_main le s) =
     (if millis_check le - lastReading s > 3000
      then waterStatus (updateWaterQualityReadings (cycle le) s) else waterStatus s)"
  by (simp add: loop_main_def Let_def)

lemma loops_keep_known:
  "waterStatus s \<noteq> ''unknown'' \<Longrightarrow>
     waterStatus (foldl (\<lambda>s le. loop_main le s) s les) \<noteq> ''unknown''"
proof (induction les arbitrary: s)
  case Nil
  then show ?case by simp
next
  case (Cons le les)
  have "waterStatus (loop_main le s) \<noteq> ''unknown''"
    using Cons.prems update_keeps_known(1) [of s "cycle le"]
    by (simp add: loop_main_status)
  then show ?case
    using Cons.IH [of "loop_main le s"] by simp
qed

subsection \<open>Sample values\<close>

lemma sqrt_vertical: "sqrt (0 * 0 + 0 * 0 + z * z) = \<bar>z\<bar>"
  by simp

lemma update_motion:
  "vibration (updateWaterQualityReadings env s) = vibration (readMotion env s)"
  "vibrationDetected (updateWaterQualityReadings env s) = vibrationDetected (readMotion env s)"
  "temperature (updateWaterQualityReadings env s) = temperature (readMotion env s)"
  "vibration (updateWaterQualityReadings_ble env s) = vibration (readMotion_ble env s)"
  "vibrationDetected (updateWaterQualityReadings_ble env s)
     = vibrationDetected (readMotion_ble env s)"
  "temperature (updateWaterQualityReadings_ble env s) = temperature (readMotion_ble env s)"
  by (simp_all add: updateWaterQualityReadings_def updateWaterQualityReadings_ble_def)

lemma vertical_vibration:
  assumes "accel_x env = 0" and "accel_y env = 0"
  shows "vibration (readMotion_ble env s) = \<bar>accel_z env\<bar> - 9.8"
  using assms sqrt_vertical [of "accel_z env"] by (simp add: readMotion_ble_result)

lemma still_motion:
  "vibration (readMotion_ble (still_env\<lparr> analogRead_tds := a \<rparr>) s) = 0"
  "\<not> vibrationDetected (readMotion_ble (still_env\<lparr> analogRead_tds := a \<rparr>) s)"
  "vibration (readMotion (still_env\<lparr> analogRead_tds := a \<rparr>) s) = 0"
  "\<not> vibrationDetected (readMotion (still_env\<lparr> analogRead_tds := a \<rparr>) s)"
proof -
  have v: "vibration (readMotion_ble (still_env\<lparr> analogRead_tds := a \<rparr>) s) = 0"
    by (simp add: vertical_vibration still_env_def)
  then show "vibration (readMotion_ble (still_env\<lparr> analogRead_tds := a \<rparr>) s) = 0" .
  from v show d: "\<not> vibrationDetected (readMotion_ble (still_env\<lparr> analogRead_tds := a \<rparr>) s)"
    by (simp add: readMotion_ble_result(2))
  have b: "mpu_begin (still_env\<lparr> analogRead_tds := a \<rparr>)"
    by (simp add: still_env_def)
  from v b show "vibration (readMotion (still_env\<lparr> analogRead_tds := a \<rparr>) s) = 0"
    by (simp add: readMotion_result)
  from d b show "\<not> vibrationDetected (readMotion (still_env\<lparr> analogRead_tds := a \<rparr>) s)"
    by (simp add: readMotion_result)
qed

lemma shaken_motion:
  "vibration (readMotion_ble (still_env\<lparr> accel_z := 12 \<rparr>) s) = 2.2"
  "vibrationDetected (readMotion_ble (still_env\<lparr> accel_z := 12 \<rparr>) s)"
  "vibration (readMotion (still_env\<lparr> accel_z := 12 \<rparr>) s) = 2.2"
  "vibrationDetected (readMotion (still_env\<lparr> accel_z := 12 \<rparr>) s)"
proof -
  have v: "vibration (readMotion_ble (still_env\<lparr> accel_z := 12 \<rparr>) s) = 2.2"
    by (simp add: vertical_vibration still_env_def)
  then show "vibration (readMotion_ble (still_env\<lparr> accel_z := 12 \<rparr>) s) = 2.2" .
  from v show d: "vibrationDetected (readMotion_ble (still_env\<lparr> accel_z := 12 \<rparr>) s)"
    by (simp add: readMotion_ble_result(2))
  have b: "mpu_begin (still_env\<lparr> accel_z := 12 \<rparr>)"
    by (simp add: still_env_def)
  from v b show "vibration (readMotion (still_env\<lparr> accel_z := 12 \<rparr>) s) = 2.2"
    by (simp add: readMotion_result)
  from d b show "vibrationDetected (readMotion (still_env\<lparr> accel_z := 12 \<rparr>) s)"
    by (simp add: readMotion_result)
qed

lemma tds_samples:
  "300 < tdsFromAdc 1055 \<and> tdsFromAdc 1055 \<le> 400"
  "400 < tdsFromAdc 1489 \<and> tdsFromAdc 1489 < 500"
  "tdsFromAdc 4095 = 2000"
  by (simp_all add: tdsFromAdc_def constrain_def constants Let_def power2_eq_square power3_eq_cube)



lemma status_table_rows:
  assumes "status_table t v prev new"
  shows "t \<le> 300 \<Longrightarrow> \<not> v \<Longrightarrow> new = ''clean''"
    and "300 < t \<Longrightarrow> t \<le> 400 \<Longrightarrow> \<not> v \<Longrightarrow> new = ''unsafe''"
    and "500 \<le> t \<Longrightarrow> new = ''extremely_unsafe''"
    and "v \<Longrightarrow> t < 500 \<Longrightarrow> new = ''vibration_detected''"
    and "400 < t \<Longrightarrow> t < 500 \<Longrightarrow> \<not> v \<Longrightarrow> new = prev"
  using assms by (simp_all add: status_table_def)

subsection \<open>Random draws\<close>

lemma random_range_scaled:
  assumes "random_range (- k) k r" and "0 < d"
  shows "- (real_of_int k / d) \<le> real_of_int r / d" and "real_of_int r / d \<le> real_of_int k / d"
proof -
  have "real_of_int (- k) / d \<le> real_of_int r / d"
    by (rule divide_right_mono) (use assms in \<open>simp_all add: random_range_def\<close>)
  then show "- (real_of_int k / d) \<le> real_of_int r / d"
    by simp
  show "real_of_int r / d \<le> real_of_int k / d"
    by (rule divide_right_mono) (use assms in \<open>simp_all add: random_range_def\<close>)
qed

lemma update_signals:
  "pH (updateWaterQualityReadings env s) = pH (simulatePhTurbidity env s)"
  "turbidity (updateWaterQualityReadings env s) = turbidity (simulatePhTurbidity env s)"
  "pH (updateWaterQualityReadings_ble env s) = pH (simulatePhTurbidity env s)"
  "turbidity (updateWaterQualityReadings_ble env s) = turbidity (simulatePhTurbidity env s)"
  by (simp_all add: updateWaterQualityReadings_def updateWaterQualityReadings_ble_def
      simulatePhTurbidity_result)

lemma signals_in_range:
  "6 \<le> pH (simulatePhTurbidity env s) \<and> pH (simulatePhTurbidity env s) \<le> 9"
  "0.1 \<le> turbidity (simulatePhTurbidity env s) \<and> turbidity (simulatePhTurbidity env s) \<le> 10"
  by (simp_all add: simulatePhTurbidity_result constrain_def)

subsection \<open>Pins and log do not touch the globals\<close>

lemma globals_fields:
  assumes "globals a = globals b"
  shows "pH a = pH b" and "temperature a = temperature b" and "tds a = tds b"
    and "turbidity a = turbidity b" and "vibration a = vibration b"
    and "vibrationDetected a = vibrationDetected b" and "waterStatus a = waterStatus b"
    and "lastReading a = lastReading b"
  using assms by (simp_all add: globals_def)

lemma globals_primitives [simp]:
  "globals (emit e s) = globals s"
  "globals (digitalWrite p v s) = globals s"
  "globals (delay n s) = globals s"
  "globals (println m s) = globals s"
  by (simp_all add: globals_def primitives split: pin.split)

lemma globals_flashRed [simp]: "globals (flashRed n s) = globals s"
  by (induction n arbitrary: s) simp_all

lemma globals_stall [simp]: "globals (stall n s) = globals s"
  by (induction n arbitrary: s) simp_all

lemma globals_setup_main [simp]: "globals (setup_main found s) = globals s"
  by (simp add: setup_main_def initPins_def greenReady_def Let_def)

lemma setup_main_signals:
  "pH (setup_main found s) = pH s" "turbidity (setup_main found s) = turbidity s"
  by (rule globals_fields [OF globals_setup_main])+

subsection \<open>The loop of \<^verbatim>\<open>src/main.cpp\<close>\<close>

lemma loop_main_signals:
  "pH (loop_main le s) =
     (if millis_check le - lastReading s > 3000
      then pH (simulatePhTurbidity (cycle le) s) else pH s)"
  "turbidity (loop_main le s) =
     (if millis_check le - lastReading s > 3000
      then turbidity (simulatePhTurbidity (cycle le) s) else turbidity s)"
  by (simp_all add: loop_main_def Let_def update_signals)

lemma signals_stay:
  assumes "6 \<le> pH s \<and> pH s \<le> 9 \<and> 0.1 \<le> turbidity s \<and> turbidity s \<le> 10"
  shows "6 \<le> pH (foldl (\<lambda>s le. loop_main le s) s les)
    \<and> pH (foldl (\<lambda>s le. loop_main le s) s les) \<le> 9
    \<and> 0.1 \<le> turbidity (foldl (\<lambda>s le. loop_main le s) s les)
    \<and> turbidity (foldl (\<lambda>s le. loop_main le s) s les) \<le> 10"
  using assms
proof (induction les arbitrary: s)
  case Nil
  then show ?case by simp
next
  case (Cons le les)
  have "6 \<le> pH (loop_main le s) \<and> pH (loop_main le s) \<le> 9
      \<and> 0.1 \<le> turbidity (loop_main le s) \<and> turbidity (loop_main le s) \<le> 10"
    using Cons.prems signals_in_range [of "cycle le" s]
    by (simp add: loop_main_signals)
  then show ?case
    using Cons.IH [of "loop_main le s"] by simp
qed

subsection \<open>LED writes and the log of a cycle\<close>

lemma setStatusLeds_leds:
  "leds (setStatusLeds env s) =
     (if waterStatus s = ''clean'' then (True, False, False)
      else if waterStatus s = ''unsafe'' then (False, True, False)
      else if waterStatus s = ''extremely_unsafe'' then (False, False, True)
      else if waterStatus s = ''vibration_detected''
        then (False, (millis_led env div 500) mod 2 \<noteq> 0, False)
      else (False, False, False))"
  by (simp add: setStatusLeds_def leds_def primitives Let_def)

lemma setStatusLeds_trace:
  "trace (setStatusLeds env s) =
     trace s @ [PinWrite LED_GREEN False, PinWrite LED_YELLOW False, PinWrite LED_RED False]
       @ (if waterStatus s = ''clean'' then [PinWrite LED_GREEN True]
          else if waterStatus s = ''unsafe'' then [PinWrite LED_YELLOW True]
          else if waterStatus s = ''extremely_unsafe'' then [PinWrite LED_RED True]
          else if waterStatus s = ''vibration_detected''
            then [PinWrite LED_YELLOW ((millis_led env div 500) mod 2 \<noteq> 0)]
          else [])"
  by (simp add: setStatusLeds_def primitives Let_def)

lemma leds_unchanged [simp]:
  "leds (simulatePhTurbidity env s) = leds s"
  "leds (assessWaterQuality s) = leds s"
  "leds (readTds env s) = leds s"
  "leds (readMotion env s) = leds s"
  "leds (readMotion_ble env s) = leds s"
  by (simp_all add: leds_def)

lemma update_leds:
  "leds (updateWaterQualityReadings env s) =
     (if waterStatus (updateWaterQualityReadings env s) = ''clean'' then (True, False, False)
      else if waterStatus (updateWaterQualityReadings env s) = ''unsafe'' then (False, True, False)
      else if waterStatus (updateWaterQualityReadings env s) = ''extremely_unsafe''
        then (False, False, True)
      else if waterStatus (updateWaterQualityReadings env s) = ''vibration_detected''
        then (False, (millis_led env div 500) mod 2 \<noteq> 0, False)
      else (False, False, False))"
  unfolding update_status
  by (simp add: updateWaterQualityReadings_def setStatusLeds_leds)

lemma update_ble_leds:
  "leds (updateWaterQualityReadings_ble env s) =
     (if waterStatus (updateWaterQualityReadings_ble env s) = ''clean'' then (True, False, False)
      else if waterStatus (updateWaterQualityReadings_ble env s) = ''unsafe''
        then (False, True, False)
      else if waterStatus (updateWaterQualityReadings_ble env s) = ''extremely_unsafe''
        then (False, False, True)
      else if waterStatus (updateWaterQualityReadings_ble env s) = ''vibration_detected''
        then (False, (millis_led env div 500) mod 2 \<noteq> 0, False)
      else (False, False, False))"
  unfolding update_status
  by (simp add: updateWaterQualityReadings_ble_def setStatusLeds_leds)

lemma events_since_append [simp]: "trace s' = trace s @ es \<Longrightarrow> events_since s s' = es"
  by (simp add: events_since_def)

lemma update_events:
  "events_since s (updateWaterQualityReadings env s) =
     MpuBegin (mpu_begin env) # (if mpu_begin env then [MpuGetEvent] else [])
       @ [PinWrite LED_GREEN False, PinWrite LED_YELLOW False, PinWrite LED_RED False]
       @ (if waterStatus (updateWaterQualityReadings env s) = ''clean''
            then [PinWrite LED_GREEN True]
          else if waterStatus (updateWaterQualityReadings env s) = ''unsafe''
            then [PinWrite LED_YELLOW True]
          else if waterStatus (updateWaterQualityReadings env s) = ''extremely_unsafe''
            then [PinWrite LED_RED True]
          else if waterStatus (updateWaterQualityReadings env s) = ''vibration_detected''
            then [PinWrite LED_YELLOW ((millis_led env div 500) mod 2 \<noteq> 0)]
          else [])"
  unfolding update_status
  by (rule events_since_append)
    (simp add: updateWaterQualityReadings_def setStatusLeds_trace readMotion_result)

lemma update_ble_events:
  "events_since s (updateWaterQualityReadings_ble env s) =
     MpuGetEvent
       # [PinWrite LED_GREEN False, PinWrite LED_YELLOW False, PinWrite LED_RED False]
       @ (if waterStatus (updateWaterQualityReadings_ble env s) = ''clean''
            then [PinWrite LED_GREEN True]
          else if waterStatus (updateWaterQualityReadings_ble env s) = ''unsafe''
            then [PinWrite LED_YELLOW True]
          else if waterStatus (updateWaterQualityReadings_ble env s) = ''extremely_unsafe''
            then [PinWrite LED_RED True]
          else if waterStatus (updateWaterQualityReadings_ble env s) = ''vibration_detected''
            then [PinWrite LED_YELLOW ((millis_led env div 500) mod 2 \<noteq> 0)]
          else [])"
  unfolding update_status
  by (rule events_since_append)
    (simp add: updateWaterQualityReadings_ble_def setStatusLeds_trace readMotion_ble_result)

subsection \<open>A cycle reads the globals only\<close>

lemma update_globals_cong:
  assumes "globals s = globals t"
  shows "globals (updateWaterQualityReadings env s) = globals (updateWaterQualityReadings env t)"
proof -
  have w: "waterStatus s = waterStatus t" and l: "lastReading s = lastReading t"
    using assms by (simp_all add: globals_def)
  have "waterStatus (updateWaterQualityReadings env s) = waterStatus (updateWaterQualityReadings env t)"
    using w by (simp add: update_status assessWaterQuality_status readMotion_result
        readMotion_ble_result)
  moreover have "lastReading (updateWaterQualityReadings env s)
      = lastReading (updateWaterQualityReadings env t)"
    using l by (simp add: updateWaterQualityReadings_def)
  ultimately show ?thesis
    by (simp add: globals_def update_motion update_signals simulatePhTurbidity_result
        readMotion_result readMotion_ble_result)
qed

lemma update_leds_cong:
  assumes "globals s = globals t"
  shows "leds (updateWaterQualityReadings env s) = leds (updateWaterQualityReadings env t)"
  using globals_fields(7) [OF update_globals_cong [OF assms, of env]]
  by (simp add: update_leds)

subsection \<open>The log of \<^verbatim>\<open>setup\<close>\<close>

lemma trace_primitives [simp]:
  "trace (emit e s) = trace s @ [e]"
  "trace (digitalWrite p v s) = trace s @ [PinWrite p v]"
  "trace (delay n s) = trace s @ [Delay n]"
  "trace (println m s) = trace s @ [Println m]"
  by (simp_all add: primitives split: pin.split)

lemma trace_flashRed:
  "trace (flashRed n s) = trace s
     @ concat (replicate n [PinWrite LED_RED True, Delay 200, PinWrite LED_RED False, Delay 200])"
  by (induction n arbitrary: s) (simp_all add: replicate_app_Cons_same)


lemma setup_main_events:
  "events_since s (setup_main found s) =
     [Delay 1000, Println ''Starting ESP32 Water Quality Sensor (Test Version)...'',
      PinWrite LED_GREEN False, PinWrite LED_YELLOW False, PinWrite LED_RED False,
      MpuBegin found]
     @ (if found then
          [MpuSetAccelerometerRange, MpuSetFilterBandwidth,
           Println ''MPU6050 initialized successfully.'']
        else
          Println ''Failed to find MPU6050 chip!'' # error_signal
            @ [Println ''Continuing without MPU6050...''])
     @ [Println ''System ready. Monitoring water quality...'',
        PinWrite LED_GREEN True, Delay 1000, PinWrite LED_GREEN False]"
  by (rule events_since_append)
    (simp add: setup_main_def initPins_def greenReady_def Let_def trace_flashRed error_signal_def)

lemma leds_primitives [simp]:
  "leds (emit e s) = leds s"
  "leds (delay n s) = leds s"
  "leds (println m s) = leds s"
  "leds (digitalWrite LED_GREEN v s) = (v, led_yellow s, led_red s)"
  "leds (digitalWrite LED_YELLOW v s) = (led_green s, v, led_red s)"
  "leds (digitalWrite LED_RED v s) = (led_green s, led_yellow s, v)"
  by (simp_all add: leds_def primitives)

lemma leds_loop_main:
  "leds (loop_main le s) =
     (if millis_check le - lastReading s > 3000
      then leds (updateWaterQualityReadings (cycle le) s) else leds s)"
  by (simp add: loop_main_def Let_def) (simp add: leds_def)

subsection \<open>Pin levels over a log\<close>

lemma cycle_pin_history:
  assumes "lit (g, y, r) \<le> 1"
    and "pre = [] \<or> pre = [MpuGetEvent] \<or> pre = [MpuBegin a] \<or> pre = [MpuBegin a, MpuGetEvent]"
  shows "\<forall>p \<in> set (pin_history
            (pre @ [PinWrite LED_GREEN False, PinWrite LED_YELLOW False, PinWrite LED_RED False]
               @ (if c1 then [PinWrite LED_GREEN True]
                  else if c2 then [PinWrite LED_YELLOW True]
                  else if c3 then [PinWrite LED_RED True]
                  else if c4 then [PinWrite LED_YELLOW b]
                  else []))
            (g, y, r)). lit p \<le> 1"
  using assms by (auto simp add: lit_def)

subsection \<open>The sample at rest\<close>

lemma still_env_adc: "still_env\<lparr> analogRead_tds := 0 \<rparr> = still_env"
  by (simp add: still_env_def)

lemma still_cycle_clean:
  "waterStatus (updateWaterQualityReadings still_env s) = ''clean''"
  "waterStatus (updateWaterQualityReadings_ble still_env s) = ''clean''"
proof -
  have a: "analogRead_tds still_env = 0"
    by (simp add: still_env_def)
  show "waterStatus (updateWaterQualityReadings still_env s) = ''clean''"
    by (rule status_table_rows(1) [OF update_table])
      (use still_motion [of 0 s] in \<open>simp_all add: update_motion still_env_adc a tdsFromAdc_zero\<close>)
  show "waterStatus (updateWaterQualityReadings_ble still_env s) = ''clean''"
    by (rule status_table_rows(1) [OF update_ble_table])
      (use still_motion [of 0 s] in \<open>simp_all add: update_motion still_env_adc a tdsFromAdc_zero\<close>)
qed

subsection \<open>Pins after \<^verbatim>\<open>setup\<close>\<close>

lemma leds_flashRed:
  "leds (flashRed n s) = (if n = 0 then leds s else (fst (leds s), fst (snd (leds s)), False))"
proof (induction n arbitrary: s)
  case 0
  then show ?case by simp
next
  case (Suc n)
  let ?t = "delay 200 (digitalWrite LED_RED False (delay 200 (digitalWrite LED_RED True s)))"
  have "leds ?t = (fst (leds s), fst (snd (leds s)), False)"
    by (simp add: primitives leds_def)
  with Suc.IH [of ?t] show ?case by simp
qed

lemma leds_stall [simp]: "leds (stall n s) = leds s"
  by (induction n arbitrary: s) simp_all

lemma leds_initPins: "leds (initPins s) = (False, False, False)"
  by (simp add: initPins_def primitives leds_def)

lemma leds_greenReady: "leds (greenReady s) = (False, snd (leds s))"
  by (simp add: greenReady_def primitives leds_def)

lemma leds_setup_main: "leds (setup_main found s) = (False, False, False)"
  by (simp add: setup_main_def Let_def leds_greenReady leds_flashRed leds_initPins)

subsection \<open>\<^verbatim>\<open>setup\<close> of the BLE sketch\<close>




lemma setup_ble_found:
  "setup_ble fuel True s = Running (state_of (setup_ble fuel True s))"
  "globals (state_of (setup_ble fuel True s)) = globals s"
  "leds (state_of (setup_ble fuel True s)) = (False, False, False)"
  by (simp_all add: setup_ble_def Let_def leds_greenReady leds_initPins initPins_def greenReady_def)
    (simp add: leds_def primitives)

subsection \<open>One iteration of the loop of \<^verbatim>\<open>src/main.cpp\<close>\<close>

lemma loop_main_due:
  assumes "millis_check le - lastReading s > 3000"
  shows "globals (loop_main le s)
      = globals ((updateWaterQualityReadings (cycle le) s)\<lparr> lastReading := millis_after le \<rparr>)"
  using assms by (simp add: loop_main_def Let_def)


subsection \<open>The firmware when the sensor is missing at start-up\<close>


lemma loop_main_due_fields:
  assumes "millis_check le - lastReading s > 3000"
  shows "tds (loop_main le s) = tdsFromAdc (analogRead_tds (cycle le))"
    and "vibration (loop_main le s) = vibration (readMotion (cycle le) s)"
    and "vibrationDetected (loop_main le s) = vibrationDetected (readMotion (cycle le) s)"
    and "temperature (loop_main le s) = temperature (readMotion (cycle le) s)"
    and "lastReading (loop_main le s) = millis_after le"
  using globals_fields [OF loop_main_due [OF assms]]
  by (simp_all add: update_motion)

subsection \<open>One iteration of the loop of the BLE sketch\<close>

lemma ble_fields_frame [simp]:
  "globals (s\<lparr> oldDeviceConnected := x \<rparr>) = globals s"
  "globals (s\<lparr> deviceConnected := x \<rparr>) = globals s"
  "leds (s\<lparr> oldDeviceConnected := x \<rparr>) = leds s"
  "leds (s\<lparr> deviceConnected := x \<rparr>) = leds s"
  "leds (s\<lparr> lastReading := m \<rparr>) = leds s"
  by (simp_all add: globals_def leds_def)

lemma runCallback_frame [simp]:
  "globals (runCallback cb s) = globals s"
  "leds (runCallback cb s) = leds s"
  by (simp_all add: runCallback_def onConnect_def onDisconnect_def
      split: option.split ble_callback.split)

lemma loop_ble_globals:
  "globals (loop_ble fmt le s) =
     (if millis_check le - lastReading s > 3000
      then globals ((updateWaterQualityReadings_ble (cycle le) s)\<lparr> lastReading := millis_after le \<rparr>)
      else globals s)"
  by (simp add: loop_ble_def Let_def)

lemma loop_ble_leds:
  "leds (loop_ble fmt le s) =
     (if millis_check le - lastReading s > 3000
      then leds (updateWaterQualityReadings_ble (cycle le) s) else leds s)"
  by (simp add: loop_ble_def Let_def)

lemma loop_main_globals:
  "globals (loop_main le s) =
     (if millis_check le - lastReading s > 3000
      then globals ((updateWaterQualityReadings (cycle le) s)\<lparr> lastReading := millis_after le \<rparr>)
      else globals s)"
  by (simp add: loop_main_def Let_def)

text \<open>
  An iteration that is not due (at most 3000 ms after the last cycle) writes no pin, in
  either sketch.
\<close>

lemma pins_held_between_cycles:
  "\<not> millis_check le - lastReading s > 3000 \<Longrightarrow> leds (loop_main le s) = leds s"
  "\<not> millis_check le - lastReading b > 3000 \<Longrightarrow>
     leds (loop_ble fmt le (runCallback cb b)) = leds b"
  using globals_fields(8) [OF runCallback_frame(1), of cb b]
  by (simp_all add: leds_loop_main loop_ble_leds)

lemma lastReading_held_between_cycles:
  "\<not> millis_check le - lastReading s > 3000 \<Longrightarrow>
     lastReading (loop_main le s) = lastReading s \<and> waterStatus (loop_main le s) = waterStatus s"
  "\<not> millis_check le - lastReading b > 3000 \<Longrightarrow>
     lastReading (loop_ble fmt le (runCallback cb b)) = lastReading b
     \<and> waterStatus (loop_ble fmt le (runCallback cb b)) = waterStatus b"
proof -
  assume "\<not> millis_check le - lastReading s > 3000"
  then have "globals (loop_main le s) = globals s"
    by (simp add: loop_main_globals)
  then show "lastReading (loop_main le s) = lastReading s
      \<and> waterStatus (loop_main le s) = waterStatus s"
    by (simp add: globals_def)
next
  assume a: "\<not> millis_check le - lastReading b > 3000"
  have r: "globals (runCallback cb b) = globals b"
    by simp
  have "globals (loop_ble fmt le (runCallback cb b)) = globals (runCallback cb b)"
    using a globals_fields(8) [OF r] by (simp add: loop_ble_globals)
  with r show "lastReading (loop_ble fmt le (runCallback cb b)) = lastReading b
      \<and> waterStatus (loop_ble fmt le (runCallback cb b)) = waterStatus b"
    by (simp add: globals_def)
qed

text \<open>The sample in motion: a vertical acceleration of 12.0 and an ADC reading of 0.\<close>

lemma shaken_cycle:
  "waterStatus (updateWaterQualityReadings (still_env\<lparr> accel_z := 12 \<rparr>) s) = ''vibration_detected''"
  "waterStatus (updateWaterQualityReadings_ble (still_env\<lparr> accel_z := 12 \<rparr>) s)
     = ''vibration_detected''"
  "leds (updateWaterQualityReadings (still_env\<lparr> accel_z := 12 \<rparr>) s) = (False, False, False)"
  "leds (updateWaterQualityReadings_ble (still_env\<lparr> accel_z := 12 \<rparr>) s) = (False, False, False)"
proof -
  have a: "analogRead_tds (still_env\<lparr> accel_z := 12 \<rparr>) = 0"
    and m: "millis_led (still_env\<lparr> accel_z := 12 \<rparr>) = 4000"
    by (simp_all add: still_env_def)
  show w: "waterStatus (updateWaterQualityReadings (still_env\<lparr> accel_z := 12 \<rparr>) s)
      = ''vibration_detected''"
    by (rule status_table_rows(4) [OF update_table])
      (simp_all add: update_motion shaken_motion a tdsFromAdc_zero)
  show wb: "waterStatus (updateWaterQualityReadings_ble (still_env\<lparr> accel_z := 12 \<rparr>) s)
      = ''vibration_detected''"
    by (rule status_table_rows(4) [OF update_ble_table])
      (simp_all add: update_motion shaken_motion a tdsFromAdc_zero)
  show "leds (updateWaterQualityReadings (still_env\<lparr> accel_z := 12 \<rparr>) s) = (False, False, False)"
    by (simp add: update_leds w m)
  show "leds (updateWaterQualityReadings_ble (still_env\<lparr> accel_z := 12 \<rparr>) s)
      = (False, False, False)"
    by (simp add: update_ble_leds wb m)
qed

subsection \<open>Sample renderings\<close>

lemma decimal_samples:
  "decimal 0 = ''0''" "decimal 2 = ''2''" "decimal 7 = ''7''" "decimal 22 = ''22''"
  "decimal 150 = ''150''" "decimal 4000 = ''4000''"
  by (simp_all add: decimal.simps digitChar_def)

lemma fmt_fixed_samples:
  "fmt_fixed 7 2 = ''7.00''" "fmt_fixed 22 1 = ''22.0''" "fmt_fixed 150 1 = ''150.0''"
  "fmt_fixed 2 2 = ''2.00''" "fmt_fixed 0 2 = ''0.00''"
  by (simp_all add: fmt_fixed_def Let_def decimal.simps digitChar_def)

lemma fmt_fixed_samples_Suc:
  "fmt_fixed 22 (Suc 0) = ''22.0''" "fmt_fixed 150 (Suc 0) = ''150.0''"
  using fmt_fixed_samples(2,3) by simp_all

subsection \<open>Runs of the firmware with the sensor present\<close>

lemma firmware_ble_found:
  "state_of (firmware_ble fmt fuel True les s) =
     foldl (\<lambda>s le. loop_ble fmt le (runCallback (callback le) s))
       (state_of (setup_ble fuel True s)) les"
  using setup_ble_found(1) [of fuel s]
  by (cases "setup_ble fuel True s") (simp_all add: firmware_ble_def)

lemma loop_ble_due:
  assumes "millis_check le - lastReading b > 3000"
  shows "leds (loop_ble fmt le (runCallback cb b))
      = leds (updateWaterQualityReadings_ble (cycle le) (runCallback cb b))"
    and "waterStatus (loop_ble fmt le (runCallback cb b))
      = waterStatus (updateWaterQualityReadings_ble (cycle le) (runCallback cb b))"
    and "lastReading (loop_ble fmt le (runCallback cb b)) = millis_after le"
proof -
  have r: "lastReading (runCallback cb b) = lastReading b"
    by (rule globals_fields(8)) simp
  show "leds (loop_ble fmt le (runCallback cb b))
      = leds (updateWaterQualityReadings_ble (cycle le) (runCallback cb b))"
    using assms r by (simp add: loop_ble_leds)
  have g: "globals (loop_ble fmt le (runCallback cb b))
      = globals ((updateWaterQualityReadings_ble (cycle le) (runCallback cb b))
          \<lparr> lastReading := millis_after le \<rparr>)"
    using assms r by (simp add: loop_ble_globals)
  show "waterStatus (loop_ble fmt le (runCallback cb b))
      = waterStatus (updateWaterQualityReadings_ble (cycle le) (runCallback cb b))"
    using globals_fields(7) [OF g] by simp
  show "lastReading (loop_ble fmt le (runCallback cb b)) = millis_after le"
    using globals_fields(8) [OF g] by simp
qed

lemma tick_fields:
  "millis_check (tick t env) = t" "millis_after (tick t env) = t" "cycle (tick t env) = env"
  "callback (tick t env) = None"
  by (simp_all add: tick_def)

lemma loop_ble_keeps_known:
  assumes "waterStatus b \<noteq> ''unknown''"
  shows "waterStatus (loop_ble fmt le (runCallback cb b)) \<noteq> ''unknown''"
proof (cases "millis_check le - lastReading b > 3000")
  case True
  have "waterStatus (runCallback cb b) = waterStatus b"
    by (rule globals_fields(7)) simp
  with assms have "waterStatus (runCallback cb b) \<noteq> ''unknown''"
    by simp
  then show ?thesis
    using update_keeps_known(2) [of "runCallback cb b" "cycle le"]
    by (simp add: loop_ble_due(2) [OF True])
next
  case False
  with assms show ?thesis
    by (simp add: lastReading_held_between_cycles(2))
qed

lemma loops_ble_keep_known:
  "waterStatus b \<noteq> ''unknown'' \<Longrightarrow>
     waterStatus (foldl (\<lambda>s le. loop_ble fmt le (runCallback (callback le) s)) b les)
       \<noteq> ''unknown''"
proof (induction les arbitrary: b)
  case Nil
  then show ?case by simp
next
  case (Cons le les)
  from Cons.prems have "waterStatus (loop_ble fmt le (runCallback (callback le) b)) \<noteq> ''unknown''"
    by (rule loop_ble_keeps_known)
  then show ?case
    using Cons.IH [of "loop_ble fmt le (runCallback (callback le) b)"] by simp
qed

subsection \<open>The log of one loop iteration\<close>

lemma update_trace_extends:
  "trace (updateWaterQualityReadings env s)
     = trace s @ events_since s (updateWaterQualityReadings env s)"
  "trace (updateWaterQualityReadings_ble env s)
     = trace s @ events_since s (updateWaterQualityReadings_ble env s)"
  by (simp_all add: events_since_def updateWaterQualityReadings_def
      updateWaterQualityReadings_ble_def setStatusLeds_trace readMotion_result
      readMotion_ble_result)

lemma loop_main_events:
  "events_since s (loop_main le s) =
     (if millis_check le - lastReading s > 3000
      then events_since s (updateWaterQualityReadings (cycle le) s) else [])
     @ [Delay 1000]"
  by (rule events_since_append)
    (simp add: loop_main_def Let_def update_trace_extends(1) [symmetric])

lemma ble_flags_stage [simp]:
  "deviceConnected (simulatePhTurbidity env s) = deviceConnected s"
  "oldDeviceConnected (simulatePhTurbidity env s) = oldDeviceConnected s"
  "deviceConnected (setStatusLeds env s) = deviceConnected s"
  "oldDeviceConnected (setStatusLeds env s) = oldDeviceConnected s"
  "deviceConnected (assessWaterQuality s) = deviceConnected s"
  "oldDeviceConnected (assessWaterQuality s) = oldDeviceConnected s"
  "deviceConnected (readTds env s) = deviceConnected s"
  "oldDeviceConnected (readTds env s) = oldDeviceConnected s"
  "deviceConnected (readMotion_ble env s) = deviceConnected s"
  "oldDeviceConnected (readMotion_ble env s) = oldDeviceConnected s"
  by (simp_all add: simulatePhTurbidity_def setStatusLeds_def assessWaterQuality_def
      readTds_def readMotion_ble_def primitives Let_def)

lemma ble_flags_update:
  "deviceConnected (updateWaterQualityReadings_ble env s) = deviceConnected s"
  "oldDeviceConnected (updateWaterQualityReadings_ble env s) = oldDeviceConnected s"
  by (simp_all add: updateWaterQualityReadings_ble_def)

lemma ble_flags_primitives [simp]:
  "deviceConnected (emit e s) = deviceConnected s"
  "oldDeviceConnected (emit e s) = oldDeviceConnected s"
  "deviceConnected (digitalWrite p v s) = deviceConnected s"
  "oldDeviceConnected (digitalWrite p v s) = oldDeviceConnected s"
  "deviceConnected (delay n s) = deviceConnected s"
  "oldDeviceConnected (delay n s) = oldDeviceConnected s"
  "deviceConnected (println m s) = deviceConnected s"
  "oldDeviceConnected (println m s) = oldDeviceConnected s"
  by (simp_all add: primitives split: pin.split)

lemma ble_flags_setup:
  "deviceConnected (state_of (setup_ble fuel True s)) = deviceConnected s"
  "oldDeviceConnected (state_of (setup_ble fuel True s)) = oldDeviceConnected s"
  by (simp_all add: setup_ble_def Let_def initPins_def greenReady_def)

text \<open>An iteration of the BLE loop with no subscriber, now or before.\<close>

lemma loop_ble_unconnected:
  assumes "\<not> deviceConnected s" and "\<not> oldDeviceConnected s"
  shows "events_since s (loop_ble fmt le (runCallback None s)) =
     (if millis_check le - lastReading s > 3000
      then events_since s (updateWaterQualityReadings_ble (cycle le) s) else [])
     @ [Delay 1000]"
    and "\<not> deviceConnected (loop_ble fmt le (runCallback None s))"
    and "\<not> oldDeviceConnected (loop_ble fmt le (runCallback None s))"
proof -
  have r: "runCallback None s = s"
    by (simp add: runCallback_def)
  show "events_since s (loop_ble fmt le (runCallback None s)) =
     (if millis_check le - lastReading s > 3000
      then events_since s (updateWaterQualityReadings_ble (cycle le) s) else [])
     @ [Delay 1000]"
    unfolding r
    by (rule events_since_append)
      (use assms in \<open>simp add: loop_ble_def Let_def ble_flags_update
        update_trace_extends(2) [symmetric]\<close>)
  show "\<not> deviceConnected (loop_ble fmt le (runCallback None s))"
    unfolding r using assms by (simp add: loop_ble_def Let_def ble_flags_update)
  show "\<not> oldDeviceConnected (loop_ble fmt le (runCallback None s))"
    unfolding r using assms by (simp add: loop_ble_def Let_def ble_flags_update)
qed

lemma shaken_cycle_events:
  "events_since s (updateWaterQualityReadings shaken_env s) =
     [MpuBegin True, MpuGetEvent, PinWrite LED_GREEN False, PinWrite LED_YELLOW False,
      PinWrite LED_RED False, PinWrite LED_YELLOW False]"
  "events_since s (updateWaterQualityReadings_ble shaken_env s) =
     [MpuGetEvent, PinWrite LED_GREEN False, PinWrite LED_YELLOW False,
      PinWrite LED_RED False, PinWrite LED_YELLOW False]"
proof -
  have m: "millis_led shaken_env = 4000" "mpu_begin shaken_env"
    by (simp_all add: shaken_env_def still_env_def)
  show "events_since s (updateWaterQualityReadings shaken_env s) =
     [MpuBegin True, MpuGetEvent, PinWrite LED_GREEN False, PinWrite LED_YELLOW False,
      PinWrite LED_RED False, PinWrite LED_YELLOW False]"
    using shaken_cycle(1) [of s] by (simp add: update_events m shaken_env_def [symmetric])
  show "events_since s (updateWaterQualityReadings_ble shaken_env s) =
     [MpuGetEvent, PinWrite LED_GREEN False, PinWrite LED_YELLOW False,
      PinWrite LED_RED False, PinWrite LED_YELLOW False]"
    using shaken_cycle(2) [of s] by (simp add: update_ble_events m shaken_env_def [symmetric])
qed

section \<open>Claims\<close>

text \<open>
  C1. For every TDS value in 0..2000, every vibration flag and every previous status, the
  assessment stage follows the classifier's table: clean for \<open>tds \<le> 300\<close> without
  vibration, unsafe for \<open>300 < tds \<le> 400\<close> without vibration, extremely unsafe for
  \<open>tds \<ge> 500\<close> whatever the vibration flag, vibration detected for a set flag below
  500, and the previous status for \<open>400 < tds < 500\<close> without vibration. The same table
  relates the values a whole cycle of either sketch stores. The status \<open>unknown\<close> is never
  assigned: it can only be the one the state had before, so a run of loop iterations that
  starts from another status never shows it, in either sketch.
\<close>

theorem C1_status_classifier:
  assumes "0 \<le> tds s" and "tds s \<le> 2000"
  shows "status_table (tds s) (vibrationDetected s) (waterStatus s)
           (waterStatus (assessWaterQuality s))
    \<and> status_table (tds (updateWaterQualityReadings env c))
        (vibrationDetected (updateWaterQualityReadings env c))
        (waterStatus c) (waterStatus (updateWaterQualityReadings env c))
    \<and> status_table (tds (updateWaterQualityReadings_ble env c))
        (vibrationDetected (updateWaterQualityReadings_ble env c))
        (waterStatus c) (waterStatus (updateWaterQualityReadings_ble env c))
    \<and> (waterStatus c \<noteq> ''unknown'' \<longrightarrow>
          waterStatus (foldl (\<lambda>s le. loop_main le s) c les) \<noteq> ''unknown'')
    \<and> (waterStatus b \<noteq> ''unknown'' \<longrightarrow>
          waterStatus (foldl (\<lambda>s le. loop_ble fmt le (runCallback (callback le) s)) b les)
            \<noteq> ''unknown'')"
  using assess_table [of s] update_table [of env c] update_ble_table [of env c]
    loops_keep_known [of c les] loops_ble_keep_known [of b fmt les]
  by simp

theorem C1_status_classifier_witness:
  "0 \<le> tds power_on \<and> tds power_on \<le> 2000
   \<and> waterStatus (assessWaterQuality power_on) = ''clean''
   \<and> waterStatus (updateWaterQualityReadings (still_env\<lparr> analogRead_tds := 0 \<rparr>) power_on) = ''clean''
   \<and> waterStatus (updateWaterQualityReadings (still_env\<lparr> analogRead_tds := 1055 \<rparr>) power_on) = ''unsafe''
   \<and> waterStatus (updateWaterQualityReadings (still_env\<lparr> analogRead_tds := 4095 \<rparr>) power_on)
       = ''extremely_unsafe''
   \<and> waterStatus (updateWaterQualityReadings (still_env\<lparr> analogRead_tds := 1489 \<rparr>) power_on)
       = waterStatus power_on
   \<and> waterStatus (updateWaterQualityReadings_ble (still_env\<lparr> accel_z := 12 \<rparr>) power_on)
       = ''vibration_detected''"
proof -
  have h: "0 \<le> tds power_on" "tds power_on \<le> 2000"
    by (simp_all add: power_on_def)
  note T = C1_status_classifier [OF h, of _ power_on "[]"]
  have stage: "status_table (tds power_on) (vibrationDetected power_on) (waterStatus power_on)
      (waterStatus (assessWaterQuality power_on))"
    using T by (rule conjunct1)
  have main: "status_table (tds (updateWaterQualityReadings e power_on))
      (vibrationDetected (updateWaterQualityReadings e power_on))
      (waterStatus power_on) (waterStatus (updateWaterQualityReadings e power_on))" for e
    using T [of e] by (rule conjunct1 [OF conjunct2])
  have ble: "status_table (tds (updateWaterQualityReadings_ble e power_on))
      (vibrationDetected (updateWaterQualityReadings_ble e power_on))
      (waterStatus power_on) (waterStatus (updateWaterQualityReadings_ble e power_on))" for e
    using T [of e] by (rule conjunct1 [OF conjunct2 [OF conjunct2]])
  have a: "waterStatus (assessWaterQuality power_on) = ''clean''"
    by (rule status_table_rows(1) [OF stage]) (simp_all add: power_on_def)
  have b: "waterStatus (updateWaterQualityReadings (still_env\<lparr> analogRead_tds := 0 \<rparr>) power_on)
      = ''clean''"
    by (rule status_table_rows(1) [OF main])
      (simp_all add: update_motion still_motion tdsFromAdc_zero)
  have c: "waterStatus (updateWaterQualityReadings (still_env\<lparr> analogRead_tds := 1055 \<rparr>) power_on)
      = ''unsafe''"
    by (rule status_table_rows(2) [OF main])
      (simp_all add: update_motion still_motion tds_samples)
  have d: "waterStatus (updateWaterQualityReadings (still_env\<lparr> analogRead_tds := 4095 \<rparr>) power_on)
      = ''extremely_unsafe''"
    by (rule status_table_rows(3) [OF main]) (simp add: tds_samples)
  have e: "waterStatus (updateWaterQualityReadings (still_env\<lparr> analogRead_tds := 1489 \<rparr>) power_on)
      = waterStatus power_on"
    by (rule status_table_rows(5) [OF main])
      (simp_all add: update_motion still_motion tds_samples)
  have z: "analogRead_tds (still_env\<lparr> accel_z := 12 \<rparr>) = 0"
    by (simp add: still_env_def)
  have f: "waterStatus (updateWaterQualityReadings_ble (still_env\<lparr> accel_z := 12 \<rparr>) power_on)
      = ''vibration_detected''"
    by (rule status_table_rows(4) [OF ble])
      (simp_all add: update_motion shaken_motion z tdsFromAdc_zero)
  from h a b c d e f show ?thesis by simp
qed

text \<open>
  C2. For every ADC value between 0 and 4095 the cycle of either sketch stores the
  spec's unit conversion with \<open>adcMax = 4095\<close>, \<open>VREF = 3.3\<close> and
  \<open>sensorTemperature = 25.0\<close>: voltage, compensation, compensated voltage, the cubic
  times 0.5, clamped to 0..2000. The result lies in 0..2000, and an ADC value of 0 gives 0.
\<close>

theorem C2_unit_converter:
  assumes "0 \<le> analogRead_tds env" and "analogRead_tds env \<le> ADC_RES"
  shows "tds (updateWaterQualityReadings env s) = convert_spec 4095 3.3 25.0 (analogRead_tds env)
    \<and> tds (updateWaterQualityReadings_ble env s) = convert_spec 4095 3.3 25.0 (analogRead_tds env)
    \<and> 0 \<le> convert_spec 4095 3.3 25.0 (analogRead_tds env)
    \<and> convert_spec 4095 3.3 25.0 (analogRead_tds env) \<le> 2000
    \<and> convert_spec 4095 3.3 25.0 0 = 0"
proof -
  have eq: "tdsFromAdc a = convert_spec 4095 3.3 25.0 a" for a
    by (simp add: tdsFromAdc_spec constants)
  show ?thesis
    using tdsFromAdc_bounds [of "analogRead_tds env"] tdsFromAdc_zero
    by (simp add: eq)
qed

theorem C2_unit_converter_witness:
  "0 \<le> analogRead_tds still_env \<and> analogRead_tds still_env \<le> ADC_RES
   \<and> tds (updateWaterQualityReadings still_env power_on) = 0
   \<and> tds (updateWaterQualityReadings (still_env\<lparr> analogRead_tds := 2048 \<rparr>) power_on)
       = convert_spec 4095 3.3 25.0 2048
   \<and> convert_spec 4095 3.3 25.0 2048 \<le> 2000"
  using C2_unit_converter [of still_env power_on]
    C2_unit_converter [of "still_env\<lparr> analogRead_tds := 2048 \<rparr>" power_on]
  by (simp add: still_env_def ADC_RES_def)

text \<open>
  C3. For every acceleration sample the motion stage stores
  \<open>sqrt (x\<^sup>2 + y\<^sup>2 + z\<^sup>2) - 9.8\<close> as the vibration magnitude and sets the flag exactly
  when its absolute value exceeds 1.5: always in the BLE sketch, and in the other sketch
  whenever \<^verbatim>\<open>mpu.begin()\<close> succeeded in that cycle. A sample \<open>(0, 0, 9.8)\<close> gives
  magnitude 0 and no flag, a sample \<open>(0, 0, 12.0)\<close> gives 2.2 and the flag (exactly so in
  real arithmetic, approximately in floating point).
\<close>

theorem C3_motion_analyzer:
  "vibration (updateWaterQualityReadings_ble env s)
      = sqrt ((accel_x env)\<^sup>2 + (accel_y env)\<^sup>2 + (accel_z env)\<^sup>2) - 9.8
   \<and> vibrationDetected (updateWaterQualityReadings_ble env s)
      = (\<bar>vibration (updateWaterQualityReadings_ble env s)\<bar> > 1.5)
   \<and> (mpu_begin env \<longrightarrow>
        vibration (updateWaterQualityReadings env s)
          = sqrt ((accel_x env)\<^sup>2 + (accel_y env)\<^sup>2 + (accel_z env)\<^sup>2) - 9.8
        \<and> vibrationDetected (updateWaterQualityReadings env s)
          = (\<bar>vibration (updateWaterQualityReadings env s)\<bar> > 1.5))
   \<and> (accel_x env = 0 \<and> accel_y env = 0 \<and> accel_z env = 9.8 \<longrightarrow>
        vibration (updateWaterQualityReadings_ble env s) = 0
        \<and> \<not> vibrationDetected (updateWaterQualityReadings_ble env s))
   \<and> (accel_x env = 0 \<and> accel_y env = 0 \<and> accel_z env = 12.0 \<longrightarrow>
        vibration (updateWaterQualityReadings_ble env s) = 2.2
        \<and> vibrationDetected (updateWaterQualityReadings_ble env s))"
proof -
  have m: "vibration (readMotion_ble env s)
      = sqrt ((accel_x env)\<^sup>2 + (accel_y env)\<^sup>2 + (accel_z env)\<^sup>2) - 9.8"
    by (simp add: readMotion_ble_result power2_eq_square)
  have d: "vibrationDetected (readMotion_ble env s) = (\<bar>vibration (readMotion_ble env s)\<bar> > 1.5)"
    by (rule readMotion_ble_result(2))
  have r: "mpu_begin env \<Longrightarrow> vibration (readMotion env s) = vibration (readMotion_ble env s)
      \<and> vibrationDetected (readMotion env s) = vibrationDetected (readMotion_ble env s)"
    by (simp add: readMotion_result)
  have still: "vibration (readMotion_ble env s) = 0"
    if "accel_x env = 0" "accel_y env = 0" "accel_z env = 9.8"
    using that by (simp add: vertical_vibration)
  have shaken: "vibration (readMotion_ble env s) = 2.2"
    if "accel_x env = 0" "accel_y env = 0" "accel_z env = 12.0"
    using that by (simp add: vertical_vibration)
  show ?thesis
    using m d r still shaken by (auto simp add: update_motion)
qed

theorem C3_motion_analyzer_witness:
  "mpu_begin still_env
   \<and> vibration (updateWaterQualityReadings still_env power_on) = 0
   \<and> \<not> vibrationDetected (updateWaterQualityReadings still_env power_on)
   \<and> vibration (updateWaterQualityReadings_ble (still_env\<lparr> accel_z := 12.0 \<rparr>) power_on) = 2.2
   \<and> vibrationDetected (updateWaterQualityReadings_ble (still_env\<lparr> accel_z := 12.0 \<rparr>) power_on)"
proof -
  have a: "mpu_begin still_env" "accel_x still_env = 0" "accel_y still_env = 0"
    "accel_z still_env = 9.8"
    by (simp_all add: still_env_def)
  have b: "accel_x (still_env\<lparr> accel_z := 12.0 \<rparr>) = 0" "accel_y (still_env\<lparr> accel_z := 12.0 \<rparr>) = 0"
    "accel_z (still_env\<lparr> accel_z := 12.0 \<rparr>) = 12.0"
    by (simp_all add: still_env_def)
  show ?thesis
    using a b C3_motion_analyzer [of still_env power_on]
      C3_motion_analyzer [of "still_env\<lparr> accel_z := 12.0 \<rparr>" power_on]
    by simp
qed

text \<open>
  C4 as stated fails: with the sensor present and at rest and an ADC reading of 1489
  (a TDS value between 400 and 500), the first cycle after start-up keeps the status
  \<open>unknown\<close> and leaves all three LEDs off.
\<close>

theorem C4_led_exclusivity_counterexample:
  "waterStatus (firmware_main True [tick 4000 (still_env\<lparr> analogRead_tds := 1489 \<rparr>)] power_on)
     = ''unknown''
   \<and> leds (firmware_main True [tick 4000 (still_env\<lparr> analogRead_tds := 1489 \<rparr>)] power_on)
     = (False, False, False)"
proof -
  have due: "millis_check (tick 4000 (still_env\<lparr> analogRead_tds := 1489 \<rparr>))
      - lastReading (setup_main True power_on) > 3000"
    using globals_fields(8) [OF globals_setup_main [of True power_on]]
    by (simp add: tick_def power_on_def)
  have c: "cycle (tick 4000 (still_env\<lparr> analogRead_tds := 1489 \<rparr>))
      = still_env\<lparr> analogRead_tds := 1489 \<rparr>"
    by (simp add: tick_def)
  have a: "analogRead_tds (still_env\<lparr> analogRead_tds := 1489 \<rparr>) = 1489"
    by simp
  have "waterStatus (updateWaterQualityReadings (still_env\<lparr> analogRead_tds := 1489 \<rparr>)
      (setup_main True power_on)) = waterStatus (setup_main True power_on)"
    by (rule status_table_rows(5) [OF update_table])
      (simp_all add: update_motion still_motion tds_samples a)
  also have "\<dots> = ''unknown''"
    using globals_fields(7) [OF globals_setup_main [of True power_on]]
    by (simp add: power_on_def)
  finally have w: "waterStatus (updateWaterQualityReadings (still_env\<lparr> analogRead_tds := 1489 \<rparr>)
      (setup_main True power_on)) = ''unknown''" .
  have l: "leds (updateWaterQualityReadings (still_env\<lparr> analogRead_tds := 1489 \<rparr>)
      (setup_main True power_on)) = (False, False, False)"
    by (simp add: update_leds w)
  show ?thesis
    using due w l by (simp add: firmware_main_def loop_main_status leds_loop_main c)
qed

text \<open>
  C4, amended. After every sampling cycle of either sketch at most one LED pin is high:
  green alone when the status is clean, yellow alone when it is unsafe, red alone when it
  is extremely unsafe; green and red are low when it is vibration detected; and all three
  are low for any other status (the start-up \<open>unknown\<close>, which a cycle with
  \<open>400 < tds < 500\<close> and no vibration keeps). During the cycle never more than one pin
  is high, if at most one was high before it; the pin levels replayed from the logged
  writes end at the levels the state holds.
\<close>

theorem C4_led_directive:
  assumes "s' = updateWaterQualityReadings env s \<or> s' = updateWaterQualityReadings_ble env s"
  shows "lit (leds s') \<le> 1
    \<and> (waterStatus s' = ''clean'' \<longrightarrow> leds s' = (True, False, False))
    \<and> (waterStatus s' = ''unsafe'' \<longrightarrow> leds s' = (False, True, False))
    \<and> (waterStatus s' = ''extremely_unsafe'' \<longrightarrow> leds s' = (False, False, True))
    \<and> (waterStatus s' = ''vibration_detected'' \<longrightarrow> \<not> led_green s' \<and> \<not> led_red s')
    \<and> (waterStatus s' \<noteq> ''clean'' \<and> waterStatus s' \<noteq> ''unsafe''
        \<and> waterStatus s' \<noteq> ''extremely_unsafe'' \<and> waterStatus s' \<noteq> ''vibration_detected''
        \<longrightarrow> leds s' = (False, False, False))
    \<and> (lit (leds s) \<le> 1 \<longrightarrow> (\<forall>p \<in> set (pin_history (events_since s s') (leds s)). lit p \<le> 1))
    \<and> last (pin_history (events_since s s') (leds s)) = leds s'"
proof -
  let ?w = "waterStatus s'"
  let ?b = "(millis_led env div 500) mod 2 \<noteq> 0"
  let ?tail = "[PinWrite LED_GREEN False, PinWrite LED_YELLOW False, PinWrite LED_RED False]
      @ (if ?w = ''clean'' then [PinWrite LED_GREEN True]
         else if ?w = ''unsafe'' then [PinWrite LED_YELLOW True]
         else if ?w = ''extremely_unsafe'' then [PinWrite LED_RED True]
         else if ?w = ''vibration_detected'' then [PinWrite LED_YELLOW ?b]
         else [])"
  have l: "leds s' =
     (if ?w = ''clean'' then (True, False, False)
      else if ?w = ''unsafe'' then (False, True, False)
      else if ?w = ''extremely_unsafe'' then (False, False, True)
      else if ?w = ''vibration_detected'' then (False, ?b, False)
      else (False, False, False))"
    using assms update_leds [of env s] update_ble_leds [of env s] by auto
  obtain pre where e: "events_since s s' = pre @ ?tail"
    and pre: "pre = [] \<or> pre = [MpuGetEvent] \<or> pre = [MpuBegin (mpu_begin env)]
        \<or> pre = [MpuBegin (mpu_begin env), MpuGetEvent]"
  proof (cases "s' = updateWaterQualityReadings env s")
    case True
    show ?thesis
      by (rule that [of "MpuBegin (mpu_begin env) # (if mpu_begin env then [MpuGetEvent] else [])"])
        (simp_all add: True update_events)
  next
    case False
    with assms have "s' = updateWaterQualityReadings_ble env s" by simp
    then show ?thesis
      by (intro that [of "[MpuGetEvent]"]) (simp_all add: update_ble_events)
  qed
  have h: "\<forall>p \<in> set (pin_history (events_since s s') (leds s)). lit p \<le> 1" if "lit (leds s) \<le> 1"
    unfolding e leds_def
    by (rule cycle_pin_history [OF that [unfolded leds_def] pre])
  have f: "last (pin_history (events_since s s') (leds s)) = leds s'"
    unfolding e l using pre by (auto simp add: leds_def)
  from l have fields: "?w = ''vibration_detected'' \<longrightarrow> \<not> led_green s' \<and> \<not> led_red s'"
    by (auto simp add: leds_def split: if_splits)
  from l have one: "lit (leds s') \<le> 1"
    by (simp add: lit_def)
  show ?thesis
    using one fields h f l by simp
qed

theorem C4_led_directive_witness:
  "waterStatus (updateWaterQualityReadings still_env power_on) = ''clean''
   \<and> lit (leds power_on) \<le> 1
   \<and> leds (updateWaterQualityReadings still_env power_on) = (True, False, False)
   \<and> list_all (\<lambda>p. lit p \<le> 1)
        (pin_history (events_since power_on (updateWaterQualityReadings still_env power_on))
          (leds power_on))"
proof -
  have w: "waterStatus (updateWaterQualityReadings still_env power_on) = ''clean''"
    by (rule still_cycle_clean)
  have p: "lit (leds power_on) \<le> 1"
    by (simp add: lit_def leds_def power_on_def)
  show ?thesis
    using w p C4_led_directive [of "updateWaterQualityReadings still_env power_on" still_env power_on]
    by (simp add: list_all_iff)
qed

text \<open>
  C5. For every clock value and every jitter draw within the stated ranges, either
  sketch stores \<open>pH = clamp (7.0 + 0.8 * sin (t / 15000) + jitterP) 6.0 9.0\<close> with
  \<open>jitterP\<close> in \<open>[-0.10, 0.10]\<close> and
  \<open>turbidity = clamp (2.0 + 1.5 * sin (t / 18000) + jitterT) 0.1 10.0\<close> with \<open>jitterT\<close>
  in \<open>[-0.30, 0.30]\<close>. Both values stay in their ranges after any number of loop
  iterations from power-on. (The jitter is a random integer divided by 100; how the
  draws are distributed is outside the model.)
\<close>

theorem C5_synthetic_signals:
  assumes "random_range (- 10) 10 (random_pH env)"
    and "random_range (- 30) 30 (random_turbidity env)"
    and "jitterP = real_of_int (random_pH env) / 100"
    and "jitterT = real_of_int (random_turbidity env) / 100"
    and "tP = real (unat (millis_pH env))"
    and "tT = real (unat (millis_turbidity env))"
  shows "- 0.10 \<le> jitterP \<and> jitterP \<le> 0.10 \<and> - 0.30 \<le> jitterT \<and> jitterT \<le> 0.30
    \<and> pH (updateWaterQualityReadings env s) = clamp (7.0 + 0.8 * sin (tP / 15000) + jitterP) 6.0 9.0
    \<and> turbidity (updateWaterQualityReadings env s)
        = clamp (2.0 + 1.5 * sin (tT / 18000) + jitterT) 0.1 10.0
    \<and> pH (updateWaterQualityReadings_ble env s) = clamp (7.0 + 0.8 * sin (tP / 15000) + jitterP) 6.0 9.0
    \<and> turbidity (updateWaterQualityReadings_ble env s)
        = clamp (2.0 + 1.5 * sin (tT / 18000) + jitterT) 0.1 10.0
    \<and> 6.0 \<le> pH (firmware_main found les power_on) \<and> pH (firmware_main found les power_on) \<le> 9.0
    \<and> 0.1 \<le> turbidity (firmware_main found les power_on)
    \<and> turbidity (firmware_main found les power_on) \<le> 10.0"
proof -
  have jP: "- 0.10 \<le> jitterP \<and> jitterP \<le> 0.10"
    using random_range_scaled [OF assms(1), of 100] assms(3) by simp
  have jT: "- 0.30 \<le> jitterT \<and> jitterT \<le> 0.30"
    using random_range_scaled [OF assms(2), of 100] assms(4) by simp
  have p: "pH (simulatePhTurbidity env s) = clamp (7.0 + 0.8 * sin (tP / 15000) + jitterP) 6.0 9.0"
    unfolding assms(3,5) by (simp add: simulatePhTurbidity_result constrain_clamp mult.commute)
  have t: "turbidity (simulatePhTurbidity env s)
      = clamp (2.0 + 1.5 * sin (tT / 18000) + jitterT) 0.1 10.0"
    unfolding assms(4,6) by (simp add: simulatePhTurbidity_result constrain_clamp mult.commute)
  have run: "6 \<le> pH (firmware_main found les power_on) \<and> pH (firmware_main found les power_on) \<le> 9
      \<and> 0.1 \<le> turbidity (firmware_main found les power_on)
      \<and> turbidity (firmware_main found les power_on) \<le> 10"
    using signals_stay [of "setup_main found power_on" les]
    by (simp add: firmware_main_def setup_main_signals power_on_def)
  show ?thesis
    using jP jT p t run by (simp add: update_signals)
qed

theorem C5_synthetic_signals_witness:
  "random_range (- 10) 10 (random_pH still_env)
   \<and> random_range (- 30) 30 (random_turbidity still_env)
   \<and> pH (updateWaterQualityReadings still_env power_on) = 7
   \<and> turbidity (updateWaterQualityReadings still_env power_on) = 2
   \<and> pH (firmware_main True [tick 4000 still_env] power_on) \<le> 9"
proof -
  have r: "random_range (- 10) 10 (random_pH still_env)"
    "random_range (- 30) 30 (random_turbidity still_env)"
    by (simp_all add: still_env_def random_range_def)
  have e: "random_pH still_env = 0" "random_turbidity still_env = 0"
    "millis_pH still_env = 0" "millis_turbidity still_env = 0"
    by (simp_all add: still_env_def)
  show ?thesis
    using r C5_synthetic_signals [OF r refl refl refl refl, of power_on True "[tick 4000 still_env]"]
    by (simp add: e clamp_def)
qed

text \<open>
  C6. For every state and clock value the string built by
  \<^verbatim>\<open>generateWaterQualityJSON\<close> is the JSON object with the members \<open>pH\<close>,
  \<open>temperature\<close>, \<open>tds\<close>, \<open>turbidity\<close>, \<open>vibration\<close>, \<open>vibrationDetected\<close>,
  \<open>waterStatus\<close>, \<open>timestamp\<close>, \<open>deviceId\<close>, \<open>status\<close> in this order: pH with 2
  decimals, temperature and tds with 1, turbidity and vibration with 2 (bare numbers),
  the flag as a bare \<open>true\<close> or \<open>false\<close>, the status as a string, the timestamp as the
  decimal digits of the millisecond clock in quotes, the device identifier
  \<open>ESP32-WaterSensor\<close> and the status \<open>active\<close>.
\<close>

theorem C6_wire_record:
  "generateWaterQualityJSON fmt ms s = render_object (wire_record fmt ms s)
   \<and> map fst (wire_record fmt ms s) =
       [''pH'', ''temperature'', ''tds'', ''turbidity'', ''vibration'', ''vibrationDetected'',
        ''waterStatus'', ''timestamp'', ''deviceId'', ''status'']
   \<and> map snd (wire_record fmt ms s) =
       [JBare (fmt (pH s) 2), JBare (fmt (temperature s) 1), JBare (fmt (tds s) 1),
        JBare (fmt (turbidity s) 2), JBare (fmt (vibration s) 2),
        JBool (vibrationDetected s), JString (waterStatus s),
        JString (decimal (unat ms)), JString ''ESP32-WaterSensor'', JString ''active'']"
proof -
  have "generateWaterQualityJSON fmt ms s = render_object (wire_record fmt ms s)"
    by (simp add: generateWaterQualityJSON_def render_object_def wire_record_def
        render_member_def render_value_def Let_def)
  then show ?thesis
    by (simp add: wire_record_def)
qed

theorem C6_wire_record_witness:
  \<open>generateWaterQualityJSON fmt_fixed 4000 power_on =
     ''{"pH":7.00,"temperature":22.0,"tds":150.0,"turbidity":2.00,"vibration":0.00,''
     @ ''"vibrationDetected":false,"waterStatus":"unknown","timestamp":"4000",''
     @ ''"deviceId":"ESP32-WaterSensor","status":"active"}''\<close>
proof -
  have f: "pH power_on = 7" "temperature power_on = 22" "tds power_on = 150"
    "turbidity power_on = 2" "vibration power_on = 0" "\<not> vibrationDetected power_on"
    "waterStatus power_on = ''unknown''"
    by (simp_all add: power_on_def)
  have r: \<open>render_object (wire_record fmt_fixed 4000 power_on) =
     ''{"pH":7.00,"temperature":22.0,"tds":150.0,"turbidity":2.00,"vibration":0.00,''
     @ ''"vibrationDetected":false,"waterStatus":"unknown","timestamp":"4000",''
     @ ''"deviceId":"ESP32-WaterSensor","status":"active"}''\<close>
    by (simp add: render_object_def wire_record_def render_member_def render_value_def
        f decimal_samples fmt_fixed_samples fmt_fixed_samples_Suc)
  have "generateWaterQualityJSON fmt_fixed 4000 power_on
      = render_object (wire_record fmt_fixed 4000 power_on)"
    using C6_wire_record [of fmt_fixed 4000 power_on] by (rule conjunct1)
  then show ?thesis
    unfolding r .
qed

text \<open>
  C7. In the sketch with the fallback (\<^verbatim>\<open>src/main.cpp\<close>), a cycle in which
  \<^verbatim>\<open>mpu.begin()\<close> fails stores a vibration value of a random integer over 100, which lies
  in \<open>[-0.5, 0.5]\<close>, clears the vibration flag, and stores the temperature
  \<open>22.0 + jitter\<close> with \<open>jitter\<close> a random integer over 10 in \<open>[-3.0, 3.0]\<close>. The
  cycle then goes on as usual: the TDS value is converted, the status follows the
  classifier's table, the LEDs are written and pH and turbidity are simulated.
\<close>

theorem C7_motion_fallback:
  assumes "\<not> mpu_begin env"
    and "random_range (- 50) 50 (random_vibration env)"
    and "random_range (- 30) 30 (random_temperature env)"
    and "jitter = real_of_int (random_temperature env) / 10"
    and "s' = updateWaterQualityReadings env s"
  shows "vibration s' = real_of_int (random_vibration env) / 100
    \<and> - 0.5 \<le> vibration s' \<and> vibration s' \<le> 0.5
    \<and> \<not> vibrationDetected s'
    \<and> temperature s' = 22.0 + jitter \<and> - 3.0 \<le> jitter \<and> jitter \<le> 3.0
    \<and> tds s' = tdsFromAdc (analogRead_tds env)
    \<and> status_table (tds s') False (waterStatus s) (waterStatus s')
    \<and> events_since s s' =
         [MpuBegin False, PinWrite LED_GREEN False, PinWrite LED_YELLOW False,
          PinWrite LED_RED False]
         @ (if waterStatus s' = ''clean'' then [PinWrite LED_GREEN True]
            else if waterStatus s' = ''unsafe'' then [PinWrite LED_YELLOW True]
            else if waterStatus s' = ''extremely_unsafe'' then [PinWrite LED_RED True]
            else if waterStatus s' = ''vibration_detected''
              then [PinWrite LED_YELLOW ((millis_led env div 500) mod 2 \<noteq> 0)]
            else [])
    \<and> pH s' = pH (simulatePhTurbidity env s)
    \<and> turbidity s' = turbidity (simulatePhTurbidity env s)"
proof -
  have v: "vibration s' = real_of_int (random_vibration env) / 100"
    and d: "\<not> vibrationDetected s'"
    and t: "temperature s' = 22.0 + jitter"
    using assms(1,4,5) by (simp_all add: update_motion readMotion_result)
  have vb: "- 0.5 \<le> vibration s' \<and> vibration s' \<le> 0.5"
    using random_range_scaled [OF assms(2), of 100] v by simp
  have jb: "- 3.0 \<le> jitter \<and> jitter \<le> 3.0"
    using random_range_scaled [OF assms(3), of 10] assms(4) by simp
  have tab: "status_table (tds s') False (waterStatus s) (waterStatus s')"
    using update_table [of env s] d assms(5) by simp
  have ev: "events_since s s' =
         [MpuBegin False, PinWrite LED_GREEN False, PinWrite LED_YELLOW False,
          PinWrite LED_RED False]
         @ (if waterStatus s' = ''clean'' then [PinWrite LED_GREEN True]
            else if waterStatus s' = ''unsafe'' then [PinWrite LED_YELLOW True]
            else if waterStatus s' = ''extremely_unsafe'' then [PinWrite LED_RED True]
            else if waterStatus s' = ''vibration_detected''
              then [PinWrite LED_YELLOW ((millis_led env div 500) mod 2 \<noteq> 0)]
            else [])"
    unfolding assms(5) update_events using assms(1) by simp
  show ?thesis
    using v vb d t jb tab ev by (simp add: assms(5) update_signals)
qed

theorem C7_motion_fallback_witness:
  "\<not> mpu_begin (still_env\<lparr> mpu_begin := False \<rparr>)
   \<and> random_range (- 50) 50 (random_vibration (still_env\<lparr> mpu_begin := False \<rparr>))
   \<and> random_range (- 30) 30 (random_temperature (still_env\<lparr> mpu_begin := False \<rparr>))
   \<and> vibration (updateWaterQualityReadings (still_env\<lparr> mpu_begin := False \<rparr>) power_on) = 0
   \<and> \<not> vibrationDetected (updateWaterQualityReadings (still_env\<lparr> mpu_begin := False \<rparr>) power_on)
   \<and> temperature (updateWaterQualityReadings (still_env\<lparr> mpu_begin := False \<rparr>) power_on) = 22
   \<and> tds (updateWaterQualityReadings (still_env\<lparr> mpu_begin := False \<rparr>) power_on) = 0"
proof -
  have h: "\<not> mpu_begin (still_env\<lparr> mpu_begin := False \<rparr>)"
    "random_range (- 50) 50 (random_vibration (still_env\<lparr> mpu_begin := False \<rparr>))"
    "random_range (- 30) 30 (random_temperature (still_env\<lparr> mpu_begin := False \<rparr>))"
    by (simp_all add: still_env_def random_range_def)
  have e: "random_vibration (still_env\<lparr> mpu_begin := False \<rparr>) = 0"
    "random_temperature (still_env\<lparr> mpu_begin := False \<rparr>) = 0"
    "analogRead_tds (still_env\<lparr> mpu_begin := False \<rparr>) = 0"
    by (simp_all add: still_env_def)
  show ?thesis
    using h C7_motion_fallback [OF h refl refl, of power_on]
    by (simp add: e tdsFromAdc_zero)
qed

text \<open>
  C8. The claim is that the yellow LED alternates 500 ms on and 500 ms off whenever the
  status is vibration detected. Both sketches write the yellow pin once per sampling
  cycle, with the parity of \<^verbatim>\<open>millis() / 500\<close> at that moment, and an iteration of
  \<^verbatim>\<open>loop\<close> in which no cycle is due writes no pin at all. Evaluated on a run with the
  sensor present, a vertical acceleration of 12.0, an ADC reading of 0 and loop
  iterations at 4000, 5500 and 6500 ms: the iteration at 4000 ms sets the status to
  vibration detected and writes the yellow pin low once; the iterations at 5500 and
  6500 ms log nothing but their \<^verbatim>\<open>delay(1000)\<close>, and after each of them the status is
  still vibration detected and the yellow pin is still low, although a 1 Hz blink is in
  its on phase at 5500 and at 6500 ms.
\<close>

theorem C8_yellow_led_not_blinking:
  "waterStatus (state_of (firmware_ble fmt_fixed 0 True [tick 4000 shaken_env] power_on_ble))
     = ''vibration_detected''
   \<and> events_since (state_of (firmware_ble fmt_fixed 0 True [] power_on_ble))
        (state_of (firmware_ble fmt_fixed 0 True [tick 4000 shaken_env] power_on_ble))
     = [MpuGetEvent, PinWrite LED_GREEN False, PinWrite LED_YELLOW False,
        PinWrite LED_RED False, PinWrite LED_YELLOW False, Delay 1000]
   \<and> events_since (state_of (firmware_ble fmt_fixed 0 True [tick 4000 shaken_env] power_on_ble))
        (state_of (firmware_ble fmt_fixed 0 True
          [tick 4000 shaken_env, tick 5500 shaken_env] power_on_ble))
     = [Delay 1000]
   \<and> waterStatus (state_of (firmware_ble fmt_fixed 0 True
          [tick 4000 shaken_env, tick 5500 shaken_env] power_on_ble))
     = ''vibration_detected''
   \<and> blink_level 5500
   \<and> leds (state_of (firmware_ble fmt_fixed 0 True
          [tick 4000 shaken_env, tick 5500 shaken_env] power_on_ble))
     = (False, False, False)
   \<and> events_since (state_of (firmware_ble fmt_fixed 0 True
          [tick 4000 shaken_env, tick 5500 shaken_env] power_on_ble))
        (state_of (firmware_ble fmt_fixed 0 True
          [tick 4000 shaken_env, tick 5500 shaken_env, tick 6500 shaken_env] power_on_ble))
     = [Delay 1000]
   \<and> waterStatus (state_of (firmware_ble fmt_fixed 0 True
          [tick 4000 shaken_env, tick 5500 shaken_env, tick 6500 shaken_env] power_on_ble))
     = ''vibration_detected''
   \<and> blink_level 6500
   \<and> leds (state_of (firmware_ble fmt_fixed 0 True
          [tick 4000 shaken_env, tick 5500 shaken_env, tick 6500 shaken_env] power_on_ble))
     = (False, False, False)
   \<and> waterStatus (firmware_main True [tick 4000 shaken_env] power_on) = ''vibration_detected''
   \<and> events_since (firmware_main True [] power_on)
        (firmware_main True [tick 4000 shaken_env] power_on)
     = [MpuBegin True, MpuGetEvent, PinWrite LED_GREEN False, PinWrite LED_YELLOW False,
        PinWrite LED_RED False, PinWrite LED_YELLOW False, Delay 1000]
   \<and> events_since (firmware_main True [tick 4000 shaken_env] power_on)
        (firmware_main True [tick 4000 shaken_env, tick 5500 shaken_env] power_on)
     = [Delay 1000]
   \<and> waterStatus (firmware_main True [tick 4000 shaken_env, tick 5500 shaken_env] power_on)
     = ''vibration_detected''
   \<and> leds (firmware_main True [tick 4000 shaken_env, tick 5500 shaken_env] power_on)
     = (False, False, False)
   \<and> events_since (firmware_main True [tick 4000 shaken_env, tick 5500 shaken_env] power_on)
        (firmware_main True
          [tick 4000 shaken_env, tick 5500 shaken_env, tick 6500 shaken_env] power_on)
     = [Delay 1000]
   \<and> waterStatus (firmware_main True
          [tick 4000 shaken_env, tick 5500 shaken_env, tick 6500 shaken_env] power_on)
     = ''vibration_detected''
   \<and> leds (firmware_main True
          [tick 4000 shaken_env, tick 5500 shaken_env, tick 6500 shaken_env] power_on)
     = (False, False, False)"
proof -
  let ?L = "\<lambda>t s. loop_ble fmt_fixed (tick t shaken_env) (runCallback None s)"
  define r0 where "r0 = state_of (setup_ble 0 True power_on_ble)"
  define r1 where "r1 = ?L 4000 r0"
  define r2 where "r2 = ?L 5500 r1"
  define r3 where "r3 = ?L 6500 r2"
  have "lastReading r0 = lastReading power_on_ble"
    unfolding r0_def by (rule globals_fields(8)) (rule setup_ble_found(2))
  then have l0: "lastReading r0 = 0"
    by (simp add: power_on_ble_def power_on_def device.defs)
  have c0: "\<not> deviceConnected r0" "\<not> oldDeviceConnected r0"
    unfolding r0_def by (simp_all add: ble_flags_setup power_on_ble_def device.defs)
  have d1: "millis_check (tick 4000 shaken_env) - lastReading r0 > 3000"
    by (simp add: l0 tick_fields)
  have s1: "waterStatus r1 = ''vibration_detected''" "leds r1 = (False, False, False)"
    "lastReading r1 = 4000"
    unfolding r1_def using loop_ble_due [OF d1, of fmt_fixed None]
    by (simp_all add: tick_fields shaken_env_def shaken_cycle)
  have c1: "\<not> deviceConnected r1" "\<not> oldDeviceConnected r1"
    unfolding r1_def by (rule loop_ble_unconnected(2,3) [OF c0])+
  have v1: "events_since r0 r1 =
      [MpuGetEvent, PinWrite LED_GREEN False, PinWrite LED_YELLOW False,
       PinWrite LED_RED False, PinWrite LED_YELLOW False, Delay 1000]"
    unfolding r1_def loop_ble_unconnected(1) [OF c0] using d1
    by (simp add: tick_fields shaken_cycle_events)
  have d2: "\<not> millis_check (tick 5500 shaken_env) - lastReading r1 > 3000"
    by (simp add: s1 tick_fields)
  have s2: "waterStatus r2 = ''vibration_detected''" "leds r2 = (False, False, False)"
    "lastReading r2 = 4000"
    unfolding r2_def
    using pins_held_between_cycles(2) [OF d2, of fmt_fixed None]
      lastReading_held_between_cycles(2) [OF d2, of fmt_fixed None]
    by (simp_all add: s1)
  have c2: "\<not> deviceConnected r2" "\<not> oldDeviceConnected r2"
    unfolding r2_def by (rule loop_ble_unconnected(2,3) [OF c1])+
  have v2: "events_since r1 r2 = [Delay 1000]"
    unfolding r2_def loop_ble_unconnected(1) [OF c1] using d2 by simp
  have d3: "\<not> millis_check (tick 6500 shaken_env) - lastReading r2 > 3000"
    by (simp add: s2 tick_fields)
  have s3: "waterStatus r3 = ''vibration_detected''" "leds r3 = (False, False, False)"
    unfolding r3_def
    using pins_held_between_cycles(2) [OF d3, of fmt_fixed None]
      lastReading_held_between_cycles(2) [OF d3, of fmt_fixed None]
    by (simp_all add: s2)
  have v3: "events_since r2 r3 = [Delay 1000]"
    unfolding r3_def loop_ble_unconnected(1) [OF c2] using d3 by simp
  have b: "blink_level 5500" "blink_level 6500"
    by (simp_all add: blink_level_def)
  let ?M = "\<lambda>t s. loop_main (tick t shaken_env) s"
  define m0 :: device where "m0 = setup_main True power_on"
  define m1 where "m1 = ?M 4000 m0"
  define m2 where "m2 = ?M 5500 m1"
  define m3 where "m3 = ?M 6500 m2"
  have "lastReading m0 = lastReading power_on"
    unfolding m0_def by (rule globals_fields(8)) simp
  then have k0: "lastReading m0 = 0"
    by (simp add: power_on_def)
  have e1: "millis_check (tick 4000 shaken_env) - lastReading m0 > 3000"
    by (simp add: k0 tick_fields)
  have t1: "waterStatus m1 = ''vibration_detected''" "leds m1 = (False, False, False)"
    "lastReading m1 = 4000"
    unfolding m1_def using e1 loop_main_due_fields(5) [OF e1]
    by (simp_all add: tick_fields loop_main_status leds_loop_main shaken_env_def shaken_cycle)
  have w1: "events_since m0 m1 =
      [MpuBegin True, MpuGetEvent, PinWrite LED_GREEN False, PinWrite LED_YELLOW False,
       PinWrite LED_RED False, PinWrite LED_YELLOW False, Delay 1000]"
    unfolding m1_def loop_main_events using e1
    by (simp add: tick_fields shaken_cycle_events)
  have e2: "\<not> millis_check (tick 5500 shaken_env) - lastReading m1 > 3000"
    by (simp add: t1 tick_fields)
  have t2: "waterStatus m2 = ''vibration_detected''" "leds m2 = (False, False, False)"
    "lastReading m2 = 4000"
    unfolding m2_def
    using pins_held_between_cycles(1) [OF e2] lastReading_held_between_cycles(1) [OF e2]
    by (simp_all add: t1)
  have w2: "events_since m1 m2 = [Delay 1000]"
    unfolding m2_def loop_main_events using e2 by simp
  have e3: "\<not> millis_check (tick 6500 shaken_env) - lastReading m2 > 3000"
    by (simp add: t2 tick_fields)
  have t3: "waterStatus m3 = ''vibration_detected''" "leds m3 = (False, False, False)"
    unfolding m3_def
    using pins_held_between_cycles(1) [OF e3] lastReading_held_between_cycles(1) [OF e3]
    by (simp_all add: t2)
  have w3: "events_since m2 m3 = [Delay 1000]"
    unfolding m3_def loop_main_events using e3 by simp
  have runs:
    "state_of (firmware_ble fmt_fixed 0 True [] power_on_ble) = r0"
    "state_of (firmware_ble fmt_fixed 0 True [tick 4000 shaken_env] power_on_ble) = r1"
    "state_of (firmware_ble fmt_fixed 0 True
       [tick 4000 shaken_env, tick 5500 shaken_env] power_on_ble) = r2"
    "state_of (firmware_ble fmt_fixed 0 True
       [tick 4000 shaken_env, tick 5500 shaken_env, tick 6500 shaken_env] power_on_ble) = r3"
    "firmware_main True [] power_on = m0"
    "firmware_main True [tick 4000 shaken_env] power_on = m1"
    "firmware_main True [tick 4000 shaken_env, tick 5500 shaken_env] power_on = m2"
    "firmware_main True
       [tick 4000 shaken_env, tick 5500 shaken_env, tick 6500 shaken_env] power_on = m3"
    by (simp_all add: firmware_ble_found firmware_main_def tick_fields
        r0_def r1_def r2_def r3_def m0_def m1_def m2_def m3_def)
  show ?thesis
    unfolding runs using s1 v1 v2 s2 b v3 s3 t1 w1 w2 t2 w3 t3 by simp
qed



text \<open>
  C10. In \<^verbatim>\<open>src/main.cpp\<close> every sampling cycle starts by calling \<^verbatim>\<open>mpu.begin()\<close>
  again, and reads the sensor (\<^verbatim>\<open>mpu.getEvent\<close>) exactly when that call succeeds:
  then the accelerometer magnitude and the sensor temperature are stored, otherwise the
  simulated values. Whether the sensor was found in \<^verbatim>\<open>setup\<close> plays no part: the
  cycle computes the same globals and pin levels and logs the same calls after a failed
  and after a successful \<^verbatim>\<open>setup\<close>. The cycle never calls
  \<^verbatim>\<open>setAccelerometerRange\<close> or \<^verbatim>\<open>setFilterBandwidth\<close>; only a successful
  \<^verbatim>\<open>setup\<close> does.
\<close>

theorem C10_reinit_every_cycle:
  assumes "s' = updateWaterQualityReadings env s"
  shows "hd (events_since s s') = MpuBegin (mpu_begin env)
    \<and> (MpuGetEvent \<in> set (events_since s s')) = mpu_begin env
    \<and> (mpu_begin env \<longrightarrow>
          vibration s' = sqrt ((accel_x env)\<^sup>2 + (accel_y env)\<^sup>2 + (accel_z env)\<^sup>2) - 9.8
          \<and> vibrationDetected s' = (\<bar>vibration s'\<bar> > 1.5)
          \<and> temperature s' = temp_temperature env)
    \<and> (\<not> mpu_begin env \<longrightarrow>
          vibration s' = real_of_int (random_vibration env) / 100
          \<and> \<not> vibrationDetected s'
          \<and> temperature s' = 22.0 + real_of_int (random_temperature env) / 10)
    \<and> MpuSetAccelerometerRange \<notin> set (events_since s s')
    \<and> MpuSetFilterBandwidth \<notin> set (events_since s s')
    \<and> globals (updateWaterQualityReadings env (setup_main found s)) = globals s'
    \<and> leds (updateWaterQualityReadings env (setup_main found s)) = leds s'
    \<and> events_since (setup_main found s) (updateWaterQualityReadings env (setup_main found s))
        = events_since s s'
    \<and> MpuSetAccelerometerRange \<in> set (events_since s (setup_main True s))
    \<and> MpuSetFilterBandwidth \<in> set (events_since s (setup_main True s))
    \<and> MpuSetAccelerometerRange \<notin> set (events_since s (setup_main False s))
    \<and> MpuSetFilterBandwidth \<notin> set (events_since s (setup_main False s))"
proof -
  have ev: "hd (events_since s s') = MpuBegin (mpu_begin env)"
    "(MpuGetEvent \<in> set (events_since s s')) = mpu_begin env"
    "MpuSetAccelerometerRange \<notin> set (events_since s s')"
    "MpuSetFilterBandwidth \<notin> set (events_since s s')"
    unfolding assms update_events by simp_all
  have real: "vibration s' = sqrt ((accel_x env)\<^sup>2 + (accel_y env)\<^sup>2 + (accel_z env)\<^sup>2) - 9.8
      \<and> vibrationDetected s' = (\<bar>vibration s'\<bar> > 1.5) \<and> temperature s' = temp_temperature env"
    if "mpu_begin env"
    using that
    by (simp add: assms update_motion readMotion_result readMotion_ble_result power2_eq_square)
  have sim: "vibration s' = real_of_int (random_vibration env) / 100 \<and> \<not> vibrationDetected s'
      \<and> temperature s' = 22.0 + real_of_int (random_temperature env) / 10"
    if "\<not> mpu_begin env"
    using that by (simp add: assms update_motion readMotion_result)
  have g: "globals (updateWaterQualityReadings env (setup_main found s)) = globals s'"
    unfolding assms by (rule update_globals_cong) simp
  have l: "leds (updateWaterQualityReadings env (setup_main found s)) = leds s'"
    unfolding assms by (rule update_leds_cong) simp
  have e: "events_since (setup_main found s) (updateWaterQualityReadings env (setup_main found s))
      = events_since s s'"
    using globals_fields(7) [OF g] unfolding assms update_events by simp
  have su: "MpuSetAccelerometerRange \<in> set (events_since s (setup_main True s))"
    "MpuSetFilterBandwidth \<in> set (events_since s (setup_main True s))"
    "MpuSetAccelerometerRange \<notin> set (events_since s (setup_main False s))"
    "MpuSetFilterBandwidth \<notin> set (events_since s (setup_main False s))"
    by (simp_all add: setup_main_events error_signal_def)
  show ?thesis
    using ev real sim g l e su by simp
qed

theorem C10_reinit_every_cycle_witness:
  "mpu_begin still_env
   \<and> MpuGetEvent \<in> set (events_since (setup_main False power_on)
        (updateWaterQualityReadings still_env (setup_main False power_on)))
   \<and> temperature (updateWaterQualityReadings still_env (setup_main False power_on)) = 25
   \<and> \<not> mpu_begin (still_env\<lparr> mpu_begin := False \<rparr>)
   \<and> \<not> vibrationDetected (updateWaterQualityReadings (still_env\<lparr> mpu_begin := False \<rparr>)
        (setup_main True power_on))"
proof -
  have a: "mpu_begin still_env" "temp_temperature still_env = 25"
    "\<not> mpu_begin (still_env\<lparr> mpu_begin := False \<rparr>)"
    by (simp_all add: still_env_def)
  show ?thesis
    using a
      C10_reinit_every_cycle [where env = still_env and s = "setup_main False power_on", OF refl]
      C10_reinit_every_cycle [where env = "still_env\<lparr> mpu_begin := False \<rparr>"
        and s = "setup_main True power_on", OF refl]
    by simp
qed

end
